theory Spec2Isabelle
  imports Main "HOL-Library.Word" "HOL-Library.Sublist" "HOL-Library.Char_ord"
    "HOL-Library.List_Lexorder"
begin

unbundle bit_operations_syntax

section \<open>Errors\<close>

text \<open>
  Go functions of the repository return an \<open>error\<close> value next to their result.  The
  model keeps one constructor for every error the sources create themselves, one for an
  error handed in by a collaborator (transport, database), and \<open>Wrap\<close> for
  \<open>errors.Wrap(err, msg)\<close>.  The pointers the sources dereference (cached symbols and
  accounts, a decoded order) are taken to be set.
\<close>

type_synonym uint8 = "8 word"
type_synonym uint64 = "64 word"

record url_Error =
  Timeout :: bool
  Message :: string

datatype error =
    OutOfRange uint8 uint8 uint8
  | ErrSymbolPriceFailed
  | ErrSymbolNotFound
  | ErrAccountNotFound
  | ErrUnkownTradeType
  | Transport url_Error
  | External string
  | Wrap error string

text \<open>
  \<open>util.FuncName()\<close> names the calling function: \<open>pkg.Func\<close> for a function; for
  a method with a pointer receiver the receiver type stands between the two, in
  parentheses and with a star before it.
\<close>

definition method_name :: "string \<Rightarrow> string \<Rightarrow> string \<Rightarrow> string" where
  "method_name pkg recv fn = pkg @ ''.('' @ ''*'' @ recv @ '').'' @ fn"

section \<open>Go's float64\<close>

text \<open>
  A \<open>float64\<close> is an IEEE 754 binary64 value.  \<open>Finite s m e\<close> stands for
  \<open>(-1)^s * m * 2^e\<close>; the values of the format are those with \<open>0 \<le> m < 2^53\<close>,
  \<open>-1074 \<le> e \<le> 971\<close> and \<open>e = -1074\<close> whenever \<open>m < 2^52\<close> (zeros and subnormals).
  Go's \<open>*\<close>, \<open>/\<close>, \<open>+\<close> and unary \<open>-\<close> on \<open>float64\<close> variables round the exact
  result to the nearest value, ties to the even significand; a division by zero does
  not panic.
\<close>

datatype float64 = Finite bool int int | Infinity bool | NaN

function bits :: "int \<Rightarrow> int" where
  "bits n = (if n \<le> 0 then 0 else 1 + bits (n div 2))"
  by pat_completeness auto
termination
  by (relation "measure nat") auto

text \<open>
  \<open>round_ratio s n d\<close> is the float64 nearest to \<open>(-1)^s * n / d\<close>, for \<open>0 \<le> n\<close> and
  \<open>0 < d\<close>: \<open>l\<close> is the binary exponent of \<open>n / d\<close>, \<open>e\<close> the exponent of the last
  place kept, \<open>q\<close> and \<open>r\<close> the quotient and remainder at that place.
\<close>

definition round_ratio :: "bool \<Rightarrow> int \<Rightarrow> int \<Rightarrow> float64" where
  "round_ratio s n d =
     (if n = 0 then Finite s 0 (- 1074) else
      let k = bits n - bits d;
          l = (if (if 0 \<le> k then d * 2 ^ nat k \<le> n else d \<le> n * 2 ^ nat (- k))
               then k else k - 1);
          e = max (l - 52) (- 1074);
          num = (if e < 0 then n * 2 ^ nat (- e) else n);
          den = (if e < 0 then d else d * 2 ^ nat e);
          q = num div den;
          r = num mod den;
          m = (if 2 * r < den \<or> (2 * r = den \<and> even q) then q else q + 1);
          m' = (if m = 2 ^ 53 then 2 ^ 52 else m);
          e' = (if m = 2 ^ 53 then e + 1 else e)
      in if 971 < e' then Infinity s else Finite s m' e')"

definition round_scaled :: "bool \<Rightarrow> int \<Rightarrow> int \<Rightarrow> float64" where
  "round_scaled s m e =
     (if 0 \<le> e then round_ratio s (m * 2 ^ nat e) 1 else round_ratio s m (2 ^ nat (- e)))"

text \<open>A decimal constant \<open>n / d\<close> of the source, converted to \<open>float64\<close>.\<close>

definition literal :: "int \<Rightarrow> int \<Rightarrow> float64" where
  "literal n d = round_ratio (n < 0) \<bar>n\<bar> d"

fun f64_neg :: "float64 \<Rightarrow> float64" where
  "f64_neg (Finite s m e) = Finite (\<not> s) m e"
| "f64_neg (Infinity s) = Infinity (\<not> s)"
| "f64_neg NaN = NaN"

fun f64_mul :: "float64 \<Rightarrow> float64 \<Rightarrow> float64" where
  "f64_mul (Finite s m e) (Finite t n f) = round_scaled (s \<noteq> t) (m * n) (e + f)"
| "f64_mul (Finite s m e) (Infinity t) = (if m = 0 then NaN else Infinity (s \<noteq> t))"
| "f64_mul (Infinity s) (Finite t n f) = (if n = 0 then NaN else Infinity (s \<noteq> t))"
| "f64_mul (Infinity s) (Infinity t) = Infinity (s \<noteq> t)"
| "f64_mul NaN y = NaN"
| "f64_mul x NaN = NaN"

fun f64_div :: "float64 \<Rightarrow> float64 \<Rightarrow> float64" where
  "f64_div (Finite s m e) (Finite t n f) =
     (if n = 0 then (if m = 0 then NaN else Infinity (s \<noteq> t))
      else if f \<le> e then round_ratio (s \<noteq> t) (m * 2 ^ nat (e - f)) n
      else round_ratio (s \<noteq> t) m (n * 2 ^ nat (f - e)))"
| "f64_div (Finite s m e) (Infinity t) = Finite (s \<noteq> t) 0 (- 1074)"
| "f64_div (Infinity s) (Finite t n f) = Infinity (s \<noteq> t)"
| "f64_div (Infinity s) (Infinity t) = NaN"
| "f64_div NaN y = NaN"
| "f64_div x NaN = NaN"

fun f64_add :: "float64 \<Rightarrow> float64 \<Rightarrow> float64" where
  "f64_add (Finite s m e) (Finite t n f) =
     (let g = min e f;
          a = (if s then - m else m) * 2 ^ nat (e - g) + (if t then - n else n) * 2 ^ nat (f - g)
      in if a = 0 then Finite (s \<and> t) 0 (- 1074) else round_scaled (a < 0) \<bar>a\<bar> g)"
| "f64_add (Finite s m e) (Infinity t) = Infinity t"
| "f64_add (Infinity s) (Finite t n f) = Infinity s"
| "f64_add (Infinity s) (Infinity t) = (if s = t then Infinity s else NaN)"
| "f64_add NaN y = NaN"
| "f64_add x NaN = NaN"

definition f64_sub :: "float64 \<Rightarrow> float64 \<Rightarrow> float64" where
  "f64_sub x y = f64_add x (f64_neg y)"

text \<open>Go's \<open>x < y\<close> and \<open>x == y\<close> on float64: false whenever an operand is NaN.\<close>

fun f64_lt :: "float64 \<Rightarrow> float64 \<Rightarrow> bool" where
  "f64_lt (Finite s m e) (Finite t n f) =
     (let g = min e f
      in (if s then - m else m) * 2 ^ nat (e - g) < (if t then - n else n) * 2 ^ nat (f - g))"
| "f64_lt (Finite s m e) (Infinity t) = (\<not> t)"
| "f64_lt (Infinity s) (Finite t n f) = s"
| "f64_lt (Infinity s) (Infinity t) = (s \<and> \<not> t)"
| "f64_lt NaN y = False"
| "f64_lt x NaN = False"

fun f64_eq :: "float64 \<Rightarrow> float64 \<Rightarrow> bool" where
  "f64_eq (Finite s m e) (Finite t n f) =
     (let g = min e f
      in (if s then - m else m) * 2 ^ nat (e - g) = (if t then - n else n) * 2 ^ nat (f - g))"
| "f64_eq (Infinity s) (Infinity t) = (s = t)"
| "f64_eq x y = False"

fun IsFinite :: "float64 \<Rightarrow> bool" where
  "IsFinite (Finite s m e) = True"
| "IsFinite x = False"

fun IsNaN :: "float64 \<Rightarrow> bool" where
  "IsNaN NaN = True"
| "IsNaN x = False"

fun IsZero :: "float64 \<Rightarrow> bool" where
  "IsZero (Finite s m e) = (m = 0)"
| "IsZero x = False"

subsection \<open>math.Floor, math.Pow10, strconv.FormatFloat\<close>

text \<open>
  \<open>math.Floor\<close> returns zeros, infinities and NaN unchanged and otherwise the greatest
  integer value not above its argument, which is always a float64.
\<close>

fun Floor :: "float64 \<Rightarrow> float64" where
  "Floor (Finite s m e) =
     (if m = 0 \<or> 0 \<le> e then Finite s m e
      else let i = (if s then - m else m) div 2 ^ nat (- e)
           in round_scaled (i < 0) \<bar>i\<bar> 0)"
| "Floor (Infinity s) = Infinity s"
| "Floor NaN = NaN"

text \<open>
  \<open>math.Pow10(n)\<close> is \<open>pow10postab32[n/32] * pow10tab[n%32]\<close> for \<open>0 \<le> n \<le> 308\<close>,
  \<open>pow10negtab32[-n/32] / pow10tab[-n%32]\<close> for \<open>-323 \<le> n \<le> 0\<close>, \<open>+Inf\<close> above and
  0 below; the tables hold the constants \<open>1e0 .. 1e31\<close>, \<open>1e0, 1e32, .. 1e288\<close> and
  \<open>1e-0, 1e-32, .. 1e-320\<close>.
\<close>

definition Pow10 :: "int \<Rightarrow> float64" where
  "Pow10 n =
     (if 0 \<le> n \<and> n \<le> 308
        then f64_mul (literal (10 ^ (32 * nat (n div 32))) 1) (literal (10 ^ nat (n mod 32)) 1)
      else if - 323 \<le> n \<and> n \<le> 0
        then f64_div (literal 1 (10 ^ (32 * nat ((- n) div 32)))) (literal (10 ^ nat ((- n) mod 32)) 1)
      else if 0 < n then Infinity False
      else Finite False 0 (- 1074))"

text \<open>
  \<open>strconv.FormatFloat(x, 'f', -1, 64)\<close> writes, without an exponent, the decimal with
  the fewest significant digits that converts back to \<open>x\<close>, the nearest to \<open>x\<close> when
  there are two of that length.  For a positive \<open>x = n / d\<close>, \<open>dec_exp n d\<close> is the
  \<open>k\<close> with \<open>10^(k-1) \<le> x < 10^k\<close>; \<open>candidate nd k n d x\<close> tries \<open>nd\<close> significant
  digits: \<open>t\<close> is \<open>x\<close> cut after \<open>nd\<close> digits, in units of \<open>10^(-p)\<close>, and the result
  \<open>(t', p)\<close> stands for the decimal \<open>t' * 10^(-p)\<close>.  Seventeen digits always suffice.
\<close>

function ndigits :: "int \<Rightarrow> int" where
  "ndigits n = (if n < 10 then 1 else 1 + ndigits (n div 10))"
  by pat_completeness auto
termination
  by (relation "measure nat") auto

function lead_zeros :: "int \<Rightarrow> int \<Rightarrow> int" where
  "lead_zeros n d = (if n \<le> 0 \<or> d \<le> n * 10 then 0 else 1 + lead_zeros (n * 10) d)"
  by pat_completeness auto
termination
  by (relation "measure (\<lambda>(n, d). nat (d - n))") auto

definition dec_exp :: "int \<Rightarrow> int \<Rightarrow> int" where
  "dec_exp n d = (if d \<le> n then ndigits (n div d) else - lead_zeros n d)"

definition parse_dec :: "int \<Rightarrow> int \<Rightarrow> float64" where
  "parse_dec t p =
     (if 0 \<le> p then round_ratio False t (10 ^ nat p)
      else round_ratio False (t * 10 ^ nat (- p)) 1)"

definition nearest_dec :: "int \<Rightarrow> int \<Rightarrow> int \<Rightarrow> int" where
  "nearest_dec p n d =
     (let num = (if 0 \<le> p then n * 10 ^ nat p else n);
          den = (if 0 \<le> p then d else d * 10 ^ nat (- p));
          t = num div den;
          r = num mod den
      in if 2 * r < den \<or> (2 * r = den \<and> even t) then t else t + 1)"

definition candidate :: "int \<Rightarrow> int \<Rightarrow> int \<Rightarrow> int \<Rightarrow> float64 \<Rightarrow> (int \<times> int) option" where
  "candidate nd k n d x =
     (let p = nd - k;
          num = (if 0 \<le> p then n * 10 ^ nat p else n);
          den = (if 0 \<le> p then d else d * 10 ^ nat (- p));
          t = num div den;
          down = (parse_dec t p = x);
          up = (parse_dec (t + 1) p = x)
      in if down \<and> up then Some (nearest_dec p n d, p)
         else if down then Some (t, p)
         else if up then Some (t + 1, p)
         else None)"

fun shortest :: "nat \<Rightarrow> int \<Rightarrow> int \<Rightarrow> int \<Rightarrow> int \<Rightarrow> float64 \<Rightarrow> int \<times> int" where
  "shortest 0 nd k n d x = (nearest_dec (nd - k) n d, nd - k)"
| "shortest (Suc fuel) nd k n d x =
     (case candidate nd k n d x of
        Some tp \<Rightarrow> tp
      | None \<Rightarrow> shortest fuel (nd + 1) k n d x)"

function digits :: "int \<Rightarrow> string" where
  "digits n =
     (if n < 10 then [''0123456789'' ! nat n]
      else digits (n div 10) @ [''0123456789'' ! nat (n mod 10)])"
  by pat_completeness auto
termination
  by (relation "measure nat") auto

definition strip0 :: "string \<Rightarrow> string" where
  "strip0 s = rev (dropWhile (\<lambda>c. c = CHR ''0'') (rev s))"

definition fmt_f :: "int \<times> int \<Rightarrow> string" where
  "fmt_f tp =
     (case tp of (t, p) \<Rightarrow>
        if p \<le> 0 then digits t @ replicate (nat (- p)) CHR ''0''
        else let ip = t div 10 ^ nat p;
                 fp = digits (t mod 10 ^ nat p);
                 frac = strip0 (replicate (nat p - length fp) CHR ''0'' @ fp)
             in if frac = [] then digits ip else digits ip @ ''.'' @ frac)"

definition FormatFloat :: "float64 \<Rightarrow> string" where
  "FormatFloat x =
     (case x of
        NaN \<Rightarrow> ''NaN''
      | Infinity s \<Rightarrow> (if s then ''-Inf'' else ''+Inf'')
      | Finite s m e \<Rightarrow>
          (if s then ''-'' else []) @
          (if m = 0 then ''0''
           else let n = (if 0 \<le> e then m * 2 ^ nat e else m);
                    d = (if 0 \<le> e then 1 else 2 ^ nat (- e))
                in fmt_f (shortest 16 1 (dec_exp n d) n d (Finite False m e))))"

section \<open>crypto/sha256, crypto/hmac, encoding/base64, net/url\<close>

text \<open>
  The library functions that \<open>sign\<close> and \<open>querystring\<close> call, as their standards
  define them: SHA-256 (FIPS 180-4) on bytes, with 32-bit words; HMAC (RFC 2104), whose
  key is hashed when longer than the 64-byte block and then filled with zero bytes to the
  block size; Base64 with the standard alphabet and padding; and \<open>url.QueryEscape\<close>,
  which keeps letters, digits, \<open>-\<close>, \<open>_\<close>, \<open>.\<close> and \<open>~\<close>, writes a space as \<open>+\<close>
  and every other byte as \<open>%XX\<close> in upper-case hexadecimal.
\<close>

type_synonym byte = "8 word"
type_synonym uint32 = "32 word"

text \<open>
  The constants of SHA-256 are the first 32 bits of the fractional parts of the cube
  roots of the first 64 primes, and its initial hash value those of the square roots of
  the first 8 primes.  \<open>iroot k n\<close> is the integer part of the \<open>k\<close>-th root of \<open>n\<close>
  below \<open>2^40\<close>, built bit by bit from the top.
\<close>

definition primes_below :: "nat \<Rightarrow> int list" where
  "primes_below n = map int (filter (\<lambda>p. list_all (\<lambda>d. p mod d \<noteq> 0) [2..<p]) [2..<n])"

fun root_bits :: "nat \<Rightarrow> nat list \<Rightarrow> int \<Rightarrow> int \<Rightarrow> int" where
  "root_bits k [] n r = r"
| "root_bits k (i # is) n r =
     (if (r + 2 ^ i) ^ k \<le> n then root_bits k is n (r + 2 ^ i) else root_bits k is n r)"

definition iroot :: "nat \<Rightarrow> int \<Rightarrow> int" where
  "iroot k n = root_bits k (rev [0..<40]) n 0"

definition K256 :: "uint32 list" where
  "K256 = map (\<lambda>p. word_of_int (iroot 3 (p * 2 ^ 96))) (take 64 (primes_below 312))"

definition init256 :: "uint32 list" where
  "init256 = map (\<lambda>p. word_of_int (iroot 2 (p * 2 ^ 64))) (take 8 (primes_below 20))"

definition be32 :: "byte list \<Rightarrow> uint32" where
  "be32 bs = foldl (\<lambda>w b. push_bit 8 w OR ucast b) 0 bs"

definition bytes_of32 :: "uint32 \<Rightarrow> byte list" where
  "bytes_of32 w = [ucast (drop_bit 24 w), ucast (drop_bit 16 w), ucast (drop_bit 8 w), ucast w]"

definition bytes_of64 :: "64 word \<Rightarrow> byte list" where
  "bytes_of64 w = map (\<lambda>i. ucast (drop_bit (8 * (7 - i)) w)) [0..<8]"

fun chunks :: "nat \<Rightarrow> nat \<Rightarrow> 'a list \<Rightarrow> 'a list list" where
  "chunks 0 n xs = []"
| "chunks (Suc k) n xs = take n xs # chunks k n (drop n xs)"

definition pad256 :: "byte list \<Rightarrow> byte list" where
  "pad256 msg =
     msg @ [0x80] @ replicate ((119 - length msg mod 64) mod 64) 0 @
     bytes_of64 (word_of_nat (8 * length msg))"

definition ssig0 :: "uint32 \<Rightarrow> uint32" where
  "ssig0 x = word_rotr 7 x XOR word_rotr 18 x XOR drop_bit 3 x"
definition ssig1 :: "uint32 \<Rightarrow> uint32" where
  "ssig1 x = word_rotr 17 x XOR word_rotr 19 x XOR drop_bit 10 x"
definition bsig0 :: "uint32 \<Rightarrow> uint32" where
  "bsig0 x = word_rotr 2 x XOR word_rotr 13 x XOR word_rotr 22 x"
definition bsig1 :: "uint32 \<Rightarrow> uint32" where
  "bsig1 x = word_rotr 6 x XOR word_rotr 11 x XOR word_rotr 25 x"

fun schedule :: "nat \<Rightarrow> uint32 list \<Rightarrow> uint32 list" where
  "schedule 0 w = w"
| "schedule (Suc k) w =
     (let n = length w
      in schedule k (w @ [ssig1 (w ! (n - 2)) + w ! (n - 7) + ssig0 (w ! (n - 15)) + w ! (n - 16)]))"

definition round256 :: "uint32 list \<Rightarrow> uint32 \<times> uint32 \<Rightarrow> uint32 list" where
  "round256 st kw =
     (case st of [a, b, c, d, e, f, g, h] \<Rightarrow>
        (let t1 = h + bsig1 e + ((e AND f) XOR (NOT e AND g)) + fst kw + snd kw;
             t2 = bsig0 a + ((a AND b) XOR (a AND c) XOR (b AND c))
         in [t1 + t2, a, b, c, d + t1, e, f, g])
      | _ \<Rightarrow> st)"

definition compress :: "uint32 list \<Rightarrow> byte list \<Rightarrow> uint32 list" where
  "compress st block =
     map2 (+) st (foldl round256 st (zip K256 (schedule 48 (map be32 (chunks 16 4 block)))))"

definition sha256 :: "byte list \<Rightarrow> byte list" where
  "sha256 msg =
     (let p = pad256 msg
      in concat (map bytes_of32 (foldl compress init256 (chunks (length p div 64) 64 p))))"

definition key_block :: "byte list \<Rightarrow> byte list" where
  "key_block key =
     (let k = (if 64 < length key then sha256 key else key)
      in k @ replicate (64 - length k) 0)"

definition hmac_sha256 :: "byte list \<Rightarrow> byte list \<Rightarrow> byte list" where
  "hmac_sha256 key msg =
     (let k = key_block key
      in sha256 (map (\<lambda>b. b XOR 0x5c) k @ sha256 (map (\<lambda>b. b XOR 0x36) k @ msg)))"

definition bytes :: "string \<Rightarrow> byte list" where
  "bytes s = map of_char s"

definition encodeStd :: string where
  "encodeStd = ''ABCDEFGHIJKLMNOPQRSTUVWXYZabcdefghijklmnopqrstuvwxyz0123456789+/''"

fun base64 :: "byte list \<Rightarrow> string" where
  "base64 (a # b # c # rest) =
     (let v = unat a * 65536 + unat b * 256 + unat c
      in [encodeStd ! (v div 262144), encodeStd ! (v div 4096 mod 64),
          encodeStd ! (v div 64 mod 64), encodeStd ! (v mod 64)] @ base64 rest)"
| "base64 [a, b] =
     (let v = unat a * 65536 + unat b * 256
      in [encodeStd ! (v div 262144), encodeStd ! (v div 4096 mod 64),
          encodeStd ! (v div 64 mod 64), CHR ''=''])"
| "base64 [a] =
     (let v = unat a * 65536
      in [encodeStd ! (v div 262144), encodeStd ! (v div 4096 mod 64), CHR ''='', CHR ''=''])"
| "base64 [] = []"


definition unreserved :: "char \<Rightarrow> bool" where
  "unreserved c \<longleftrightarrow>
     (CHR ''a'' \<le> c \<and> c \<le> CHR ''z'') \<or> (CHR ''A'' \<le> c \<and> c \<le> CHR ''Z'') \<or>
     (CHR ''0'' \<le> c \<and> c \<le> CHR ''9'') \<or>
     c = CHR ''-'' \<or> c = CHR ''_'' \<or> c = CHR ''.'' \<or> c = CHR ''~''"

definition escape_char :: "char \<Rightarrow> string" where
  "escape_char c =
     (if unreserved c then [c]
      else if c = CHR '' '' then ''+''
      else [CHR ''%'', ''0123456789ABCDEF'' ! (of_char c div 16),
            ''0123456789ABCDEF'' ! (of_char c mod 16)])"

definition QueryEscape :: "string \<Rightarrow> string" where
  "QueryEscape s = concat (map escape_char s)"

text \<open>\<open>strings.Join\<close>.\<close>

fun Join :: "string list \<Rightarrow> string \<Rightarrow> string" where
  "Join [] sep = []"
| "Join [x] sep = x"
| "Join (x # y # ys) sep = x @ sep @ Join (y # ys) sep"

section \<open>plan/period.go\<close>

record datetime =
  hour :: uint8
  minute :: uint8
  second :: uint8

datatype Period =
    Daily datetime
  | Weekly int datetime
  | Monthly uint8 datetime

definition mustBetween :: "uint8 \<Rightarrow> uint8 \<Rightarrow> uint8 \<Rightarrow> error option" where
  "mustBetween v from to =
     (if v < from \<or> v > to then Some (OutOfRange from to v) else None)"

definition validateTime :: "uint8 \<Rightarrow> uint8 \<Rightarrow> uint8 \<Rightarrow> error option" where
  "validateTime h m s =
     (case mustBetween h 0 23 of
        Some e \<Rightarrow> Some (Wrap e ''invalid hour'')
      | None \<Rightarrow>
     (case mustBetween m 0 59 of
        Some e \<Rightarrow> Some (Wrap e ''invalid minute'')
      | None \<Rightarrow>
     (case mustBetween s 0 59 of
        Some e \<Rightarrow> Some (Wrap e ''invalid second'')
      | None \<Rightarrow> None)))"

definition NewDaily :: "uint8 \<Rightarrow> uint8 \<Rightarrow> uint8 \<Rightarrow> error + Period" where
  "NewDaily h m s =
     (case validateTime h m s of
        Some e \<Rightarrow> Inl (Wrap e ''plan.NewDaily'')
      | None \<Rightarrow> Inr (Daily \<lparr>hour = h, minute = m, second = s\<rparr>))"

definition NewWeekly :: "int \<Rightarrow> uint8 \<Rightarrow> uint8 \<Rightarrow> uint8 \<Rightarrow> error + Period" where
  "NewWeekly weekday h m s =
     (case validateTime h m s of
        Some e \<Rightarrow> Inl (Wrap e ''plan.NewWeekly'')
      | None \<Rightarrow> Inr (Weekly weekday \<lparr>hour = h, minute = m, second = s\<rparr>))"

definition NewMonthly :: "uint8 \<Rightarrow> uint8 \<Rightarrow> uint8 \<Rightarrow> uint8 \<Rightarrow> error + Period" where
  "NewMonthly day h m s =
     (case validateTime h m s of
        Some e \<Rightarrow> Inl (Wrap e ''plan.NewMonthly'')
      | None \<Rightarrow> Inr (Monthly day \<lparr>hour = h, minute = m, second = s\<rparr>))"

text \<open>\<open>Schedule\<close>: the cron expression, its numbers written by \<open>%d\<close>.\<close>

definition show_int :: "int \<Rightarrow> string" where
  "show_int i = (if i < 0 then ''-'' @ digits (- i) else digits i)"

fun Schedule :: "Period \<Rightarrow> string" where
  "Schedule (Daily d) =
     show_int (uint (second d)) @ '' '' @ show_int (uint (minute d)) @ '' '' @
     show_int (uint (hour d)) @ '' * * *''"
| "Schedule (Weekly weekday d) =
     show_int (uint (second d)) @ '' '' @ show_int (uint (minute d)) @ '' '' @
     show_int (uint (hour d)) @ '' * * '' @ show_int weekday"
| "Schedule (Monthly day d) =
     show_int (uint (second d)) @ '' '' @ show_int (uint (minute d)) @ '' '' @
     show_int (uint (hour d)) @ '' '' @ show_int (uint day) @ '' * *''"

section \<open>huobi/huobi.go: accounts\<close>

record Balance =
  Balance_Currency :: string
  Balance_Type :: string
  Balance_Balance :: float64

record Account =
  Account_ID :: uint64
  Account_Type :: string
  Account_SubType :: string
  Account_State :: string
  Account_List :: "Balance list"

record Symbol =
  Symbol_Symbol :: string
  Symbol_BaseCurrency :: string
  Symbol_QuoteCurrency :: string
  Symbol_PricePrecision :: int
  Symbol_AmountPrecision :: int
  Symbol_SymbolPartition :: string

record Client =
  Client_host :: string
  Client_key :: string
  Client_secret :: string
  Client_symbols :: "Symbol list"
  Client_accounts :: "Account list"

text \<open>
  The loop of \<open>SpotAccountID\<close>: \<open>id\<close> starts as 0, the first account of type
  \<open>spot\<close> assigns its ID and breaks.
\<close>

fun spot_scan :: "Account list \<Rightarrow> uint64 \<Rightarrow> uint64" where
  "spot_scan [] i = i"
| "spot_scan (a # as) i =
     (if Account_Type a = ''spot'' then Account_ID a else spot_scan as i)"

definition SpotAccountID :: "Client \<Rightarrow> error + uint64" where
  "SpotAccountID c =
     (let i = spot_scan (Client_accounts c) 0 in
      if i = 0 then Inl (Wrap ErrAccountNotFound (method_name ''huobi'' ''Client'' ''SpotAccountID'')) else Inr i)"

section \<open>huobi/huobi.go: orders\<close>

record OpenOrder =
  OpenOrder_ID :: uint64
  OpenOrder_AccountID :: uint64
  OpenOrder_Source :: string
  OpenOrder_Type :: string
  OpenOrder_State :: string
  OpenOrder_Symbol :: string
  OpenOrder_Amount :: float64
  OpenOrder_Price :: float64
  OpenOrder_FieldAmount :: float64
  OpenOrder_FieldCashAmount :: float64
  OpenOrder_FieldFees :: float64
  OpenOrder_CreatedAt :: uint64
  OpenOrder_FinishedAt :: uint64
  OpenOrder_CanceledAt :: uint64

definition BuyMarket :: string where "BuyMarket = ''buy-market''"
definition SellMarket :: string where "SellMarket = ''sell-market''"
definition BuyLimit :: string where "BuyLimit = ''buy-limit''"
definition SellLimit :: string where "SellLimit = ''sell-limit''"

text \<open>\<open>Client.Symbol(name)\<close>: the first cached symbol of that name.\<close>

fun Symbol_by_name :: "Symbol list \<Rightarrow> string \<Rightarrow> error + Symbol" where
  "Symbol_by_name [] name = Inl (Wrap ErrSymbolNotFound (method_name ''huobi'' ''Client'' ''Symbol''))"
| "Symbol_by_name (s # ss) name =
     (if Symbol_Symbol s = name then Inr s else Symbol_by_name ss name)"

text \<open>\<open>floor(f, prec)\<close> of huobi.go.\<close>

definition floor_str :: "float64 \<Rightarrow> int \<Rightarrow> string" where
  "floor_str f prec =
     (let i = Pow10 prec in FormatFloat (f64_div (Floor (f64_mul f i)) i))"

text \<open>
  What the network returns is given by an environment: the order id the exchange answers
  to a placed order, the order it reports for an id, the prices of the latest trade tick
  of a symbol; for the database, whether an insert fails and what the summary query
  returns; and the clock, read once by \<open>stateInit\<close> and \<open>stateUpdate\<close> and once by
  \<open>stateFlush\<close>.  A Go map with string keys is a list of key and value pairs with
  distinct keys.
\<close>

record Order =
  Order_ID :: uint64
  Order_Symbol :: string
  Order_Type :: string
  Order_Price :: float64
  Order_BaseAmount :: float64
  Order_QuoteAmount :: float64
  Order_Created :: uint64

record Statistics =
  Statistics_ID :: uint64
  Statistics_Symbol :: string
  Statistics_Position :: float64
  Statistics_Investment :: float64
  Statistics_Price :: float64
  Statistics_Equity :: float64
  Statistics_Created :: uint64

record env =
  env_place :: "(string \<times> string) list \<Rightarrow> error + uint64"
  env_order :: "uint64 \<Rightarrow> error + OpenOrder"
  env_ticks :: "string \<Rightarrow> error + float64 list"
  env_insert_order :: "Order \<Rightarrow> error option"
  env_insert_statistics :: "Statistics \<Rightarrow> error option"
  env_summary :: "error + float64 \<times> float64"
  env_now :: uint64
  env_now_flush :: uint64

definition SymbolPrice :: "env \<Rightarrow> string \<Rightarrow> error + float64" where
  "SymbolPrice env name =
     (case env_ticks env name of
        Inl e \<Rightarrow> Inl (Wrap e (method_name ''huobi'' ''Client'' ''SymbolPrice''))
      | Inr [] \<Rightarrow> Inl (Wrap ErrSymbolPriceFailed (method_name ''huobi'' ''Client'' ''SymbolPrice''))
      | Inr (pr # rest) \<Rightarrow> Inr pr)"

definition GetOpenOrder :: "env \<Rightarrow> uint64 \<Rightarrow> error + OpenOrder" where
  "GetOpenOrder env i =
     (case env_order env i of
        Inl e \<Rightarrow> Inl (Wrap e (method_name ''huobi'' ''Client'' ''OpenOrder''))
      | Inr ord \<Rightarrow> Inr ord)"

text \<open>
  The parameters \<open>Trade\<close> builds for the order it places.  \<open>Trade\<close> then posts
  them, sleeps five seconds, which changes no value, and fetches the order by the id the
  exchange returned.
\<close>

definition trade_params ::
    "Symbol \<Rightarrow> uint64 \<Rightarrow> string \<Rightarrow> float64 \<Rightarrow> float64 \<Rightarrow> (string \<times> string) list" where
  "trade_params s i cmd amount price =
     [(''account-id'', digits (uint i)),
      (''source'', ''api''),
      (''symbol'', Symbol_Symbol s),
      (''amount'', floor_str amount (Symbol_AmountPrecision s)),
      (''type'', cmd)] @
     (if cmd = BuyLimit \<or> cmd = SellLimit
      then [(''price'', floor_str price (Symbol_PricePrecision s))] else [])"

definition Trade :: "env \<Rightarrow> Client \<Rightarrow> string \<Rightarrow> string \<Rightarrow> float64 \<Rightarrow> float64 \<Rightarrow> error + OpenOrder" where
  "Trade env c symbol cmd amount price =
     (case Symbol_by_name (Client_symbols c) symbol of
        Inl e \<Rightarrow> Inl (Wrap e (method_name ''huobi'' ''Client'' ''Trade''))
      | Inr s \<Rightarrow>
     (case SpotAccountID c of
        Inl e \<Rightarrow> Inl (Wrap e (method_name ''huobi'' ''Client'' ''Trade''))
      | Inr i \<Rightarrow>
     (case env_place env (trade_params s i cmd amount price) of
        Inl e \<Rightarrow> Inl (Wrap e (method_name ''huobi'' ''Client'' ''Trade''))
      | Inr oid \<Rightarrow>
     (case GetOpenOrder env oid of
        Inl e \<Rightarrow> Inl (Wrap e (method_name ''huobi'' ''Client'' ''Trade''))
      | Inr ord \<Rightarrow> Inr ord))))"

section \<open>huobi/huobi.go: signing\<close>

text \<open>
  \<open>querystring\<close> collects the keys of the map, sorts them with \<open>sort.Strings\<close>
  (bytewise lexicographic order, the order of \<open>string\<close> here), and joins
  \<open>escape(k) = escape(m[k])\<close> with \<open>&\<close>; a key the map does not hold reads as the
  empty string, as in Go.  \<open>sign\<close> is the Base64 text of the HMAC-SHA256 of the content
  under the client's secret; the \<open>Write\<close> of a hash never fails, so its error branch is
  left out.  \<open>req_signature\<close> is what \<open>req\<close> signs for a method, host, path and the
  map \<open>compute\<close> of signed parameters.
\<close>

definition lookup :: "(string \<times> string) list \<Rightarrow> string \<Rightarrow> string" where
  "lookup m k = (case map_of m k of Some v \<Rightarrow> v | None \<Rightarrow> [])"

definition querystring :: "(string \<times> string) list \<Rightarrow> string" where
  "querystring m =
     Join (map (\<lambda>k. QueryEscape k @ ''='' @ QueryEscape (lookup m k)) (sort (map fst m))) ''&''"

definition sign :: "Client \<Rightarrow> string \<Rightarrow> string" where
  "sign c content = base64 (hmac_sha256 (bytes (Client_secret c)) (bytes content))"

definition req_content :: "string \<Rightarrow> string \<Rightarrow> string \<Rightarrow> string \<Rightarrow> string" where
  "req_content method host path query =
     method @ [CHR 0x0A] @ host @ [CHR 0x0A] @ path @ [CHR 0x0A] @ query"

definition req_signature ::
    "Client \<Rightarrow> string \<Rightarrow> string \<Rightarrow> string \<Rightarrow> (string \<times> string) list \<Rightarrow> string" where
  "req_signature c method host path compute =
     sign c (req_content method host path (querystring compute))"

text \<open>
  The canonical query string in the words of the specification: the parameters sorted
  by key, each key and value escaped, joined with \<open>&\<close>.
\<close>

definition canonical_query :: "(string \<times> string) list \<Rightarrow> string" where
  "canonical_query m =
     Join (map (\<lambda>(k, v). QueryEscape k @ ''='' @ QueryEscape v) (sort_key fst m)) ''&''"

section \<open>huobi/huobi.go: the retry loop of req\<close>

text \<open>
  \<open>client.Do\<close> returns either a response or an error of type \<open>*url.Error\<close>, which
  implements \<open>net.Error\<close>; the model keeps what the loop reads of it: its \<open>Timeout()\<close>
  and its message.  The transport is a function from the number of the attempt (from 0)
  to its outcome.  \<open>do_retry\<close> is the code between the label \<open>t\<close> and the \<open>return\<close>
  of the error branch: \<open>retry\<close> is the variable of that name, \<open>n\<close> counts the calls
  of \<open>client.Do\<close> made so far, and the result pairs the outcome with the number of
  calls made.
\<close>

definition transient :: "url_Error \<Rightarrow> bool" where
  "transient err \<longleftrightarrow>
     Timeout err \<or> sublist ''connection reset by peer'' (Message err)"

function do_retry :: "(nat \<Rightarrow> url_Error + 'r) \<Rightarrow> nat \<Rightarrow> nat \<Rightarrow> (error + 'r) \<times> nat" where
  "do_retry Do retry n =
     (case Do n of
        Inr resp \<Rightarrow> (Inr resp, n + 1)
      | Inl err \<Rightarrow>
          if transient err \<and> retry + 1 < 3 then do_retry Do (retry + 1) (n + 1)
          else (Inl (Wrap (Transport err) (method_name ''huobi'' ''Client'' ''req'')), n + 1))"
  by pat_completeness auto
termination
  by (relation "measure (\<lambda>(Do, retry, n). 3 - retry)") auto

definition req_do :: "(nat \<Rightarrow> url_Error + 'r) \<Rightarrow> (error + 'r) \<times> nat" where
  "req_do Do = do_retry Do 0 0"

section \<open>The db package\<close>

record db =
  db_orders :: "Order list"
  db_statistics :: "Statistics list"

definition AddOrder :: "env \<Rightarrow> Order \<Rightarrow> db \<Rightarrow> error option \<times> db" where
  "AddOrder env order d =
     (case env_insert_order env order of
        Some e \<Rightarrow> (Some (Wrap e ''db.AddOrder''), d)
      | None \<Rightarrow> (None, d\<lparr>db_orders := db_orders d @ [order]\<rparr>))"

definition AddStatistics :: "env \<Rightarrow> Statistics \<Rightarrow> db \<Rightarrow> error option \<times> db" where
  "AddStatistics env st d =
     (case env_insert_statistics env st of
        Some e \<Rightarrow> (Some (Wrap e ''db.AddStatistics''), d)
      | None \<Rightarrow> (None, d\<lparr>db_statistics := db_statistics d @ [st]\<rparr>))"

definition OrderSummary :: "env \<Rightarrow> error + float64 \<times> float64" where
  "OrderSummary env =
     (case env_summary env of
        Inl e \<Rightarrow> Inl (Wrap e ''db.OrderSummary'')
      | Inr v \<Rightarrow> Inr v)"

section \<open>plan/plan.go\<close>

record state =
  position :: float64
  investment :: float64
  price :: float64
  equity :: float64
  updated :: uint64

record plan = state +
  plan_client :: Client
  plan_period :: Period
  plan_symbol :: string
  plan_amount :: float64

text \<open>The \<open>db.Order\<close> and the \<open>db.Statistics\<close> that \<open>addOrder\<close> and \<open>addStatistics\<close> build.\<close>

definition order_row :: "OpenOrder \<Rightarrow> Order" where
  "order_row order =
     \<lparr>Order_ID = OpenOrder_ID order,
      Order_Symbol = OpenOrder_Symbol order,
      Order_Type = OpenOrder_Type order,
      Order_Price = f64_div (OpenOrder_FieldCashAmount order) (OpenOrder_FieldAmount order),
      Order_BaseAmount = OpenOrder_FieldAmount order,
      Order_QuoteAmount = OpenOrder_FieldCashAmount order,
      Order_Created = OpenOrder_CreatedAt order div 1000\<rparr>"

definition statistics_row :: "plan \<Rightarrow> Statistics" where
  "statistics_row p =
     \<lparr>Statistics_ID = 0,
      Statistics_Symbol = plan_symbol p,
      Statistics_Position = position p,
      Statistics_Investment = investment p,
      Statistics_Price = price p,
      Statistics_Equity = equity p,
      Statistics_Created = updated p\<rparr>"

definition addOrder :: "env \<Rightarrow> OpenOrder \<Rightarrow> db \<Rightarrow> error option \<times> db" where
  "addOrder env order d = AddOrder env (order_row order) d"

definition addStatistics :: "env \<Rightarrow> plan \<Rightarrow> db \<Rightarrow> error option \<times> db" where
  "addStatistics env p d = AddStatistics env (statistics_row p) d"

definition stateFlush :: "env \<Rightarrow> plan \<Rightarrow> error option \<times> plan" where
  "stateFlush env p =
     (case SymbolPrice env (plan_symbol p) of
        Inl e \<Rightarrow> (Some (Wrap e (method_name ''plan'' ''plan'' ''stateFlush'')), p)
      | Inr pr \<Rightarrow>
          (None, p\<lparr>price := pr, equity := f64_mul pr (position p),
                   updated := env_now_flush env\<rparr>))"

definition stateInit :: "env \<Rightarrow> plan \<Rightarrow> error option \<times> plan" where
  "stateInit env p =
     (case OrderSummary env of
        Inl e \<Rightarrow> (Some (Wrap e (method_name ''plan'' ''plan'' ''stateInit'')), p)
      | Inr (pos, ivm) \<Rightarrow>
          (case stateFlush env (p\<lparr>position := pos, investment := ivm, updated := env_now env\<rparr>) of
             (Some e, p') \<Rightarrow> (Some (Wrap e (method_name ''plan'' ''plan'' ''stateInit'')), p')
           | (None, p') \<Rightarrow> (None, p')))"

definition stateUpdate :: "env \<Rightarrow> OpenOrder \<Rightarrow> plan \<Rightarrow> error option \<times> plan" where
  "stateUpdate env order p =
     (case stateFlush env
             (p\<lparr>position := f64_add (position p) (OpenOrder_FieldAmount order),
                investment := f64_add (investment p) (OpenOrder_FieldCashAmount order),
                updated := env_now env\<rparr>) of
        (Some e, p') \<Rightarrow> (Some (Wrap e (method_name ''plan'' ''plan'' ''stateUpdate'')), p')
      | (None, p') \<Rightarrow> (None, p'))"

definition New :: "env \<Rightarrow> string \<Rightarrow> float64 \<Rightarrow> Period \<Rightarrow> Client \<Rightarrow> error + plan" where
  "New env symbol amount period client =
     (case stateInit env
             \<lparr>position = Finite False 0 (- 1074), investment = Finite False 0 (- 1074),
              price = Finite False 0 (- 1074), equity = Finite False 0 (- 1074),
              updated = 0,
              plan_client = client, plan_period = period, plan_symbol = symbol,
              plan_amount = amount\<rparr> of
        (Some e, p) \<Rightarrow> Inl (Wrap e ''plan.New'')
      | (None, p) \<Rightarrow> Inr p)"

text \<open>The \<open>switch\<close> of \<open>Invest\<close> on the type of the returned order.\<close>

definition normalize :: "OpenOrder \<Rightarrow> OpenOrder" where
  "normalize order =
     (if OpenOrder_Type order = SellMarket \<or> OpenOrder_Type order = SellLimit
      then order\<lparr>OpenOrder_FieldAmount := f64_neg (OpenOrder_FieldAmount order),
                 OpenOrder_FieldCashAmount := f64_neg (OpenOrder_FieldCashAmount order)\<rparr>
      else order)"

text \<open>The call \<open>p.client.Trade(p.symbol, huobi.BuyLimit, p.amount, -1)\<close> of \<open>Invest\<close>.\<close>

definition the_trade :: "env \<Rightarrow> plan \<Rightarrow> error + OpenOrder" where
  "the_trade env p =
     Trade env (plan_client p) (plan_symbol p) BuyLimit (plan_amount p) (literal (- 1) 1)"

definition Invest :: "env \<Rightarrow> plan \<times> db \<Rightarrow> error option \<times> plan \<times> db" where
  "Invest env pd =
     (case pd of (p, d) \<Rightarrow>
     (case the_trade env p of
        Inl e \<Rightarrow> (Some (Wrap e (method_name ''plan'' ''plan'' ''Invest'')), p, d)
      | Inr order \<Rightarrow>
     (case addOrder env (normalize order) d of
        (Some e, d') \<Rightarrow> (Some (Wrap e (method_name ''plan'' ''plan'' ''Invest'')), p, d')
      | (None, d') \<Rightarrow>
     (case stateUpdate env (normalize order) p of
        (Some e, p') \<Rightarrow> (Some (Wrap e (method_name ''plan'' ''plan'' ''Invest'')), p', d')
      | (None, p') \<Rightarrow> (None, p', d')))))"

definition Monitor :: "env \<Rightarrow> plan \<times> db \<Rightarrow> error option \<times> plan \<times> db" where
  "Monitor env pd =
     (case pd of (p, d) \<Rightarrow>
     (case stateFlush env p of
        (Some e, p') \<Rightarrow> (Some (Wrap e (method_name ''plan'' ''plan'' ''Monitor'')), p', d)
      | (None, p') \<Rightarrow>
     (case addStatistics env p' d of
        (Some e, d') \<Rightarrow> (Some (Wrap e (method_name ''plan'' ''plan'' ''Monitor'')), p', d')
      | (None, d') \<Rightarrow> (None, p', d'))))"

section \<open>Example values\<close>

text \<open>
  A client with one symbol and a spot account, a plan holding 2 units bought for 1000,
  and environments in which the exchange reports a fill of 0.5 for 100 and a price of
  200: \<open>ex_env\<close> reports it as a limit buy, \<open>ex_env_sell\<close> as a limit sell,
  \<open>ex_env_db_fails\<close> refuses the insert of the order.  In \<open>ex_env_zero_base\<close> the
  exchange reports a filled quote amount of 100 with a filled base amount of 0, and the
  row, whose price is infinite, is stored.  In \<open>ex_env_unfilled\<close> it reports the order
  with nothing filled; the price of its row is NaN, which sqlite binds as NULL, and the
  orders table, declaring the price \<open>NOT NULL\<close>, refuses the insert.
\<close>

definition ex_client :: Client where
  "ex_client =
     \<lparr>Client_host = ''https://api.huobi.pro'', Client_key = ''apikey'',
      Client_secret = ''apisecret'',
      Client_symbols =
        [\<lparr>Symbol_Symbol = ''btcusdt'', Symbol_BaseCurrency = ''btc'',
          Symbol_QuoteCurrency = ''usdt'', Symbol_PricePrecision = 2,
          Symbol_AmountPrecision = 4, Symbol_SymbolPartition = ''main''\<rparr>],
      Client_accounts =
        [\<lparr>Account_ID = 7, Account_Type = ''spot'', Account_SubType = [],
          Account_State = ''working'',
          Account_List = []\<rparr>]\<rparr>"

definition ex_plan :: plan where
  "ex_plan =
     \<lparr>position = literal 2 1, investment = literal 1000 1, price = literal 500 1,
      equity = literal 1000 1, updated = 1536376845,
      plan_client = ex_client, plan_period = Daily \<lparr>hour = 0, minute = 0, second = 0\<rparr>,
      plan_symbol = ''btcusdt'', plan_amount = literal 100 1\<rparr>"

definition ex_db :: db where
  "ex_db = \<lparr>db_orders = [], db_statistics = []\<rparr>"

definition ex_fill :: "string \<Rightarrow> float64 \<Rightarrow> float64 \<Rightarrow> OpenOrder" where
  "ex_fill kind base quote =
     \<lparr>OpenOrder_ID = 42, OpenOrder_AccountID = 7, OpenOrder_Source = ''api'',
      OpenOrder_Type = kind, OpenOrder_State = ''filled'', OpenOrder_Symbol = ''btcusdt'',
      OpenOrder_Amount = literal 100 1, OpenOrder_Price = literal 200 1,
      OpenOrder_FieldAmount = base, OpenOrder_FieldCashAmount = quote,
      OpenOrder_FieldFees = literal 1 1000, OpenOrder_CreatedAt = 1536376845000,
      OpenOrder_FinishedAt = 1536376846000, OpenOrder_CanceledAt = 0\<rparr>"

definition ex_env_of :: "OpenOrder \<Rightarrow> error option \<Rightarrow> env" where
  "ex_env_of fill insert_result =
     \<lparr>env_place = (\<lambda>params. Inr 42),
      env_order = (\<lambda>i. Inr fill),
      env_ticks = (\<lambda>name. Inr [literal 200 1]),
      env_insert_order = (\<lambda>row. insert_result),
      env_insert_statistics = (\<lambda>row. None),
      env_summary = Inr (literal 12 10, literal 8000 1),
      env_now = 1536376850, env_now_flush = 1536376851\<rparr>"

definition ex_env :: env where
  "ex_env = ex_env_of (ex_fill ''buy-limit'' (literal 5 10) (literal 100 1)) None"

definition ex_env_sell :: env where
  "ex_env_sell = ex_env_of (ex_fill ''sell-limit'' (literal 5 10) (literal 100 1)) None"

definition ex_env_db_fails :: env where
  "ex_env_db_fails =
     ex_env_of (ex_fill ''buy-limit'' (literal 5 10) (literal 100 1))
       (Some (External ''database is locked''))"

definition ex_env_zero_base :: env where
  "ex_env_zero_base =
     ex_env_of (ex_fill ''buy-limit'' (Finite False 0 (- 1074)) (literal 100 1)) None"

definition ex_env_unfilled :: env where
  "ex_env_unfilled =
     ex_env_of (ex_fill ''buy-limit'' (Finite False 0 (- 1074)) (Finite False 0 (- 1074)))
       (Some (External ''NOT NULL constraint failed: orders.price''))"

definition ex_compute :: "(string \<times> string) list" where
  "ex_compute =
     [(''symbol'', ''btcusdt''), (''AccessKeyId'', ''apikey''), (''SignatureMethod'', ''HmacSHA256''),
      (''SignatureVersion'', ''2''), (''Timestamp'', ''2018-09-08T03:20:45'')]"

section \<open>float64 arithmetic on examples\<close>

text \<open>
  Well-known values of binary64 arithmetic: 1 is \<open>2^52 * 2^-52\<close>; 0.1 + 0.2 prints as
  0.30000000000000004; 0.3 * 3 is below 0.9; the floor of -2.5 is -3 and that of 0.5 is
  0; 1 divided by negative zero is negative infinity.
\<close>

lemma float64_examples:
  "literal 1 1 = Finite False 4503599627370496 (- 52)"
  "FormatFloat (f64_add (literal 1 10) (literal 2 10)) = ''0.30000000000000004''"
  "FormatFloat (f64_div (literal 1 1) (literal 3 1)) = ''0.3333333333333333''"
  "FormatFloat (f64_mul (literal 3 10) (literal 3 1)) = ''0.8999999999999999''"
  "FormatFloat (literal (- 25) 10) = ''-2.5''"
  "Floor (literal (- 25) 10) = literal (- 3) 1"
  "Floor (literal 5 10) = Finite False 0 (- 1074)"
  "f64_div (literal 1 1) (Finite True 0 (- 1074)) = Infinity True"
  by code_simp+

section \<open>Period construction\<close>

lemma mustBetween_None: "mustBetween v 0 to = None \<longleftrightarrow> v \<le> to"
  by (simp add: mustBetween_def not_le [symmetric])

lemma mustBetween_Some: "(\<exists>e. mustBetween v 0 to = Some e) \<longleftrightarrow> \<not> v \<le> to"
  by (simp add: mustBetween_def not_le [symmetric])

lemma validateTime_None:
  "validateTime h m s = None \<longleftrightarrow> h \<le> 23 \<and> m \<le> 59 \<and> s \<le> 59"
proof -
  have "validateTime h m s = None \<longleftrightarrow>
      mustBetween h 0 23 = None \<and> mustBetween m 0 59 = None \<and> mustBetween s 0 59 = None"
    by (simp add: validateTime_def split: option.splits)
  then show ?thesis by (simp only: mustBetween_None)
qed

text \<open>
  C8.  The three constructors take \<open>uint8\<close> arguments.  Each returns a period exactly
  when hour is at most 23, minute at most 59 and second at most 59 (the lower bound 0
  holds for every \<open>uint8\<close>), and an error for every other argument triple; the weekday
  and the day of the month are not checked.  On success the period carries the given
  fields.
\<close>

theorem period_construction:
  "(NewDaily h m s = Inr (Daily \<lparr>hour = h, minute = m, second = s\<rparr>)
      \<longleftrightarrow> unat h \<le> 23 \<and> unat m \<le> 59 \<and> unat s \<le> 59) \<and>
   ((\<exists>e. NewDaily h m s = Inl e) \<longleftrightarrow> \<not> (unat h \<le> 23 \<and> unat m \<le> 59 \<and> unat s \<le> 59)) \<and>
   (NewWeekly wd h m s = Inr (Weekly wd \<lparr>hour = h, minute = m, second = s\<rparr>)
      \<longleftrightarrow> unat h \<le> 23 \<and> unat m \<le> 59 \<and> unat s \<le> 59) \<and>
   ((\<exists>e. NewWeekly wd h m s = Inl e) \<longleftrightarrow> \<not> (unat h \<le> 23 \<and> unat m \<le> 59 \<and> unat s \<le> 59)) \<and>
   (NewMonthly d h m s = Inr (Monthly d \<lparr>hour = h, minute = m, second = s\<rparr>)
      \<longleftrightarrow> unat h \<le> 23 \<and> unat m \<le> 59 \<and> unat s \<le> 59) \<and>
   ((\<exists>e. NewMonthly d h m s = Inl e) \<longleftrightarrow> \<not> (unat h \<le> 23 \<and> unat m \<le> 59 \<and> unat s \<le> 59))"
proof -
  have b: "unat h \<le> 23 \<and> unat m \<le> 59 \<and> unat s \<le> 59 \<longleftrightarrow> h \<le> 23 \<and> m \<le> 59 \<and> s \<le> 59"
    by (simp add: word_le_nat_alt)
  have v: "validateTime h m s = None \<longleftrightarrow> unat h \<le> 23 \<and> unat m \<le> 59 \<and> unat s \<le> 59"
    unfolding b by (rule validateTime_None)
  show ?thesis
    unfolding v [symmetric]
    by (auto simp: NewDaily_def NewWeekly_def NewMonthly_def split: option.splits)
qed

theorem period_construction_witness:
  "NewDaily 7 56 34 = Inr (Daily \<lparr>hour = 7, minute = 56, second = 34\<rparr>) \<and>
   (\<exists>e. NewDaily 24 0 0 = Inl e) \<and>
   (\<exists>e. NewWeekly 6 7 60 34 = Inl e) \<and>
   (\<exists>e. NewMonthly 1 7 56 255 = Inl e)"
  using period_construction [of 7 56 34 0 0]
    period_construction [of 24 0 0 0 0]
    period_construction [of 7 60 34 6 0]
    period_construction [of 7 56 255 0 1]
  by simp

text \<open>The cases of period_test.go.\<close>

lemma Schedule_tests:
  "map_sum id Schedule (NewDaily 7 56 34) = Inr ''34 56 7 * * *''"
  "map_sum id Schedule (NewWeekly 6 7 56 34) = Inr ''34 56 7 * * 6''"
  "map_sum id Schedule (NewMonthly 1 7 56 34) = Inr ''34 56 7 1 * *''"
  by code_simp+

section \<open>SpotAccountID\<close>

lemma spot_scan_find:
  "spot_scan as i =
     (case find (\<lambda>a. Account_Type a = ''spot'') as of None \<Rightarrow> i | Some a \<Rightarrow> Account_ID a)"
  by (induction as) simp_all

text \<open>
  C7, as the code has it.  \<open>SpotAccountID\<close> returns the ID of the first account of type
  \<open>spot\<close> in the cached list when that ID is not 0.  It fails with "account not found"
  exactly when the list has no account of type \<open>spot\<close> or the first such account has
  ID 0: the loop's variable \<open>id\<close> doubles as the found flag.
\<close>

theorem SpotAccountID_first_spot:
  "SpotAccountID c =
     (case find (\<lambda>a. Account_Type a = ''spot'') (Client_accounts c) of
        None \<Rightarrow> Inl (Wrap ErrAccountNotFound (method_name ''huobi'' ''Client'' ''SpotAccountID''))
      | Some a \<Rightarrow> if Account_ID a = 0 then Inl (Wrap ErrAccountNotFound (method_name ''huobi'' ''Client'' ''SpotAccountID'')) else Inr (Account_ID a))"
  by (simp add: SpotAccountID_def spot_scan_find split: option.splits)

theorem SpotAccountID_first_spot_witness:
  "SpotAccountID \<lparr>Client_host = [], Client_key = [], Client_secret = [], Client_symbols = [],
       Client_accounts =
         [\<lparr>Account_ID = 5, Account_Type = ''margin'', Account_SubType = [], Account_State = [],
          Account_List = []\<rparr>,
          \<lparr>Account_ID = 7, Account_Type = ''spot'', Account_SubType = [], Account_State = [],
          Account_List = []\<rparr>,
          \<lparr>Account_ID = 9, Account_Type = ''spot'', Account_SubType = [], Account_State = [],
          Account_List = []\<rparr>]\<rparr>
     = Inr 7"
  using SpotAccountID_first_spot [of "\<lparr>Client_host = [], Client_key = [], Client_secret = [],
       Client_symbols = [], Client_accounts =
         [\<lparr>Account_ID = 5, Account_Type = ''margin'', Account_SubType = [], Account_State = [],
          Account_List = []\<rparr>,
          \<lparr>Account_ID = 7, Account_Type = ''spot'', Account_SubType = [], Account_State = [],
          Account_List = []\<rparr>,
          \<lparr>Account_ID = 9, Account_Type = ''spot'', Account_SubType = [], Account_State = [],
          Account_List = []\<rparr>]\<rparr>"]
  by simp

text \<open>
  C7 as stated fails: a cached list whose only account has type \<open>spot\<close> and ID 0.
\<close>

theorem SpotAccountID_counterexample:
  "Account_Type \<lparr>Account_ID = 0, Account_Type = ''spot'', Account_SubType = [],
       Account_State = ''working'',
          Account_List = []\<rparr> = ''spot'' \<and>
   SpotAccountID \<lparr>Client_host = [], Client_key = [], Client_secret = [], Client_symbols = [],
       Client_accounts = [\<lparr>Account_ID = 0, Account_Type = ''spot'', Account_SubType = [],
         Account_State = ''working'',
          Account_List = []\<rparr>]\<rparr>
     = Inl (Wrap ErrAccountNotFound (method_name ''huobi'' ''Client'' ''SpotAccountID''))"
  by (simp add: SpotAccountID_def)

section \<open>The retry loop\<close>

declare do_retry.simps [simp del]

lemma do_retry_ok: "Do n = Inr r \<Longrightarrow> do_retry Do retry n = (Inr r, Suc n)"
  by (subst do_retry.simps) simp

lemma do_retry_fatal:
  "Do n = Inl e \<Longrightarrow> \<not> transient e \<Longrightarrow> do_retry Do retry n = (Inl (Wrap (Transport e) (method_name ''huobi'' ''Client'' ''req'')), Suc n)"
  by (subst do_retry.simps) simp

lemma do_retry_last:
  "Do n = Inl e \<Longrightarrow> 2 \<le> retry \<Longrightarrow> do_retry Do retry n = (Inl (Wrap (Transport e) (method_name ''huobi'' ''Client'' ''req'')), Suc n)"
  by (subst do_retry.simps) simp

lemma do_retry_stop:
  "Do n = Inl e \<Longrightarrow> \<not> (transient e \<and> retry + 1 < 3) \<Longrightarrow>
     do_retry Do retry n = (Inl (Wrap (Transport e) (method_name ''huobi'' ''Client'' ''req'')), Suc n)"
  by (subst do_retry.simps) auto

lemma do_retry_again:
  "Do n = Inl e \<Longrightarrow> transient e \<Longrightarrow> retry < 2 \<Longrightarrow>
     do_retry Do retry n = do_retry Do (Suc retry) (Suc n)"
  by (subst do_retry.simps) simp

lemma do_retry_calls: "retry < 3 \<Longrightarrow> snd (do_retry Do retry n) \<le> n + (3 - retry)"
proof (induction Do retry n rule: do_retry.induct)
  case (1 Do retry n)
  show ?case
  proof (cases "Do n")
    case (Inr r)
    then show ?thesis using 1(2) by (simp add: do_retry_ok)
  next
    case (Inl e)
    show ?thesis
    proof (cases "transient e \<and> retry + 1 < 3")
      case True
      with Inl 1 have "snd (do_retry Do (retry + 1) (n + 1)) \<le> n + 1 + (3 - (retry + 1))"
        by blast
      moreover from True Inl have "do_retry Do retry n = do_retry Do (retry + 1) (n + 1)"
        by (simp add: do_retry_again)
      moreover have "n + 1 + (3 - (retry + 1)) = n + (3 - retry)"
        using True by arith
      ultimately show ?thesis by simp
    next
      case False
      from Inl False have "do_retry Do retry n = (Inl (Wrap (Transport e) (method_name ''huobi'' ''Client'' ''req'')), Suc n)"
        by (rule do_retry_stop)
      then show ?thesis using 1(2) by simp
    qed
  qed
qed

lemma do_retry_cong:
  "(\<And>i. n \<le> i \<Longrightarrow> i < n + (3 - retry) \<Longrightarrow> Do i = Do' i) \<Longrightarrow> retry < 3 \<Longrightarrow>
     do_retry Do retry n = do_retry Do' retry n"
proof (induction Do retry n rule: do_retry.induct)
  case (1 Do retry n)
  have same: "Do n = Do' n" using 1(2) [of n] 1(3) by simp
  show ?case
  proof (cases "Do n")
    case (Inr r)
    with same have "Do' n = Inr r" by simp
    with Inr show ?thesis by (simp add: do_retry_ok)
  next
    case (Inl e)
    show ?thesis
    proof (cases "transient e \<and> retry + 1 < 3")
      case True
      have "do_retry Do (retry + 1) (n + 1) = do_retry Do' (retry + 1) (n + 1)"
      proof (rule 1(1) [OF Inl])
        show "transient e \<and> retry + 1 < 3" by (rule True)
        show "retry + 1 < 3" using True by simp
      next
        fix i assume "n + 1 \<le> i" "i < n + 1 + (3 - (retry + 1))"
        then show "Do i = Do' i" using 1(2) [of i] by simp
      qed
      with True Inl same show ?thesis by (simp add: do_retry_again)
    next
      case False
      from Inl False have l: "do_retry Do retry n = (Inl (Wrap (Transport e) (method_name ''huobi'' ''Client'' ''req'')), Suc n)"
        by (rule do_retry_stop)
      from Inl same have "Do' n = Inl e" by simp
      from this False have "do_retry Do' retry n = (Inl (Wrap (Transport e) (method_name ''huobi'' ''Client'' ''req'')), Suc n)"
        by (rule do_retry_stop)
      with l show ?thesis by simp
    qed
  qed
qed

text \<open>
  C4.  \<open>req_do\<close> runs the loop from \<open>retry = 0\<close>.  A response on the first, second or
  third attempt is returned, the earlier attempts having failed with a timeout or a
  message holding "connection reset by peer"; a third such failure is returned as the
  error after exactly three calls; an error of any other kind is returned at once, after
  the call that produced it; the loop never makes more than three calls, and what a
  fourth or later attempt would return has no influence on the result.  The loop has no
  statement between a failed call and the jump back, so there is no delay to model.
\<close>

theorem req_retry_bound:
  "(Do 0 = Inr r \<longrightarrow> req_do Do = (Inr r, 1)) \<and>
   (Do 0 = Inl e0 \<and> transient e0 \<and> Do 1 = Inr r \<longrightarrow> req_do Do = (Inr r, 2)) \<and>
   (Do 0 = Inl e0 \<and> transient e0 \<and> Do 1 = Inl e1 \<and> transient e1 \<and> Do 2 = Inr r
      \<longrightarrow> req_do Do = (Inr r, 3)) \<and>
   (Do 0 = Inl e0 \<and> transient e0 \<and> Do 1 = Inl e1 \<and> transient e1 \<and> Do 2 = Inl e2
      \<longrightarrow> req_do Do = (Inl (Wrap (Transport e2) (method_name ''huobi'' ''Client'' ''req'')), 3)) \<and>
   (Do 0 = Inl e0 \<and> \<not> transient e0 \<longrightarrow> req_do Do = (Inl (Wrap (Transport e0) (method_name ''huobi'' ''Client'' ''req'')), 1)) \<and>
   (Do 0 = Inl e0 \<and> transient e0 \<and> Do 1 = Inl e1 \<and> \<not> transient e1
      \<longrightarrow> req_do Do = (Inl (Wrap (Transport e1) (method_name ''huobi'' ''Client'' ''req'')), 2)) \<and>
   snd (req_do Do) \<le> 3 \<and>
   ((\<forall>i<3. Do i = Do' i) \<longrightarrow> req_do Do = req_do Do') \<and>
   (transient e \<longleftrightarrow> Timeout e \<or> sublist ''connection reset by peer'' (Message e))"
proof -
  have one: "(1::nat) = Suc 0" and two: "(2::nat) = Suc (Suc 0)"
    and three: "(3::nat) = Suc (Suc (Suc 0))"
    by simp_all
  have a: "Do 0 = Inr r \<longrightarrow> req_do Do = (Inr r, 1)"
    by (simp add: req_do_def do_retry_ok)
  have b: "Do 0 = Inl e0 \<and> transient e0 \<and> Do 1 = Inr r \<longrightarrow> req_do Do = (Inr r, 2)"
    by (simp add: req_do_def do_retry_again [of Do 0 e0 0] do_retry_ok [of Do "Suc 0"] two)
  have c: "Do 0 = Inl e0 \<and> transient e0 \<and> Do 1 = Inl e1 \<and> transient e1 \<and> Do 2 = Inr r
      \<longrightarrow> req_do Do = (Inr r, 3)"
    by (simp add: req_do_def do_retry_again [of Do 0 e0 0] do_retry_again [of Do "Suc 0" e1 "Suc 0"]
        do_retry_ok [of Do "Suc (Suc 0)"] two three)
  have d: "Do 0 = Inl e0 \<and> transient e0 \<and> Do 1 = Inl e1 \<and> transient e1 \<and> Do 2 = Inl e2
      \<longrightarrow> req_do Do = (Inl (Wrap (Transport e2) (method_name ''huobi'' ''Client'' ''req'')), 3)"
    by (simp add: req_do_def do_retry_again [of Do 0 e0 0] do_retry_again [of Do "Suc 0" e1 "Suc 0"]
        do_retry_last [of Do "Suc (Suc 0)" e2 "Suc (Suc 0)"] two three)
  have e: "Do 0 = Inl e0 \<and> \<not> transient e0 \<longrightarrow> req_do Do = (Inl (Wrap (Transport e0) (method_name ''huobi'' ''Client'' ''req'')), 1)"
    by (simp add: req_do_def do_retry_fatal)
  have f: "Do 0 = Inl e0 \<and> transient e0 \<and> Do 1 = Inl e1 \<and> \<not> transient e1
      \<longrightarrow> req_do Do = (Inl (Wrap (Transport e1) (method_name ''huobi'' ''Client'' ''req'')), 2)"
    by (simp add: req_do_def do_retry_again [of Do 0 e0 0] do_retry_fatal [of Do "Suc 0" e1] two)
  have g: "snd (req_do Do) \<le> 3"
    using do_retry_calls [where Do = Do and retry = 0 and n = 0] by (simp add: req_do_def)
  have h: "(\<forall>i<3. Do i = Do' i) \<longrightarrow> req_do Do = req_do Do'"
    using do_retry_cong [where n = 0 and retry = 0 and Do = Do and Do' = Do']
    by (simp add: req_do_def)
  have t: "transient e \<longleftrightarrow> Timeout e \<or> sublist ''connection reset by peer'' (Message e)"
    by (simp add: transient_def)
  show ?thesis by (intro conjI a b c d e f g h t)
qed

theorem req_retry_bound_witness:
  "req_do (\<lambda>n. Inr ''ok'' :: url_Error + string) = (Inr ''ok'', 1) \<and>
   req_do (\<lambda>n. if n < 1 then Inl \<lparr>Timeout = False, Message = ''read: connection reset by peer''\<rparr>
       else Inr ''ok'') = (Inr ''ok'', 2) \<and>
   req_do (\<lambda>n. if n < 2 then Inl \<lparr>Timeout = True, Message = ''i/o timeout''\<rparr> else Inr ''ok'')
     = (Inr ''ok'', 3) \<and>
   req_do (\<lambda>n. Inl \<lparr>Timeout = True, Message = ''i/o timeout''\<rparr> :: url_Error + string)
     = (Inl (Wrap (Transport \<lparr>Timeout = True, Message = ''i/o timeout''\<rparr>) (method_name ''huobi'' ''Client'' ''req'')), 3) \<and>
   req_do (\<lambda>n. Inl \<lparr>Timeout = False, Message = ''no such host''\<rparr> :: url_Error + string)
     = (Inl (Wrap (Transport \<lparr>Timeout = False, Message = ''no such host''\<rparr>) (method_name ''huobi'' ''Client'' ''req'')), 1) \<and>
   req_do (\<lambda>n. if n < 1 then Inl \<lparr>Timeout = True, Message = ''i/o timeout''\<rparr>
       else Inl \<lparr>Timeout = False, Message = ''no such host''\<rparr> :: url_Error + string)
     = (Inl (Wrap (Transport \<lparr>Timeout = False, Message = ''no such host''\<rparr>) (method_name ''huobi'' ''Client'' ''req'')), 2) \<and>
   req_do (\<lambda>n. if n < 3 then Inl \<lparr>Timeout = True, Message = ''i/o timeout''\<rparr> else Inr ''late'')
     = req_do (\<lambda>n. Inl \<lparr>Timeout = True, Message = ''i/o timeout''\<rparr>)"
proof -
  let ?t = "\<lparr>Timeout = True, Message = ''i/o timeout''\<rparr>"
  let ?r = "\<lparr>Timeout = False, Message = ''read: connection reset by peer''\<rparr>"
  let ?h = "\<lparr>Timeout = False, Message = ''no such host''\<rparr>"
  have t: "transient ?t" "transient ?r" "\<not> transient ?h"
    by (simp_all add: transient_def sublist_code)
  have a: "req_do (\<lambda>n. Inr ''ok'' :: url_Error + string) = (Inr ''ok'', 1)"
    using req_retry_bound [where Do = "\<lambda>n. Inr ''ok'' :: url_Error + string" and r = "''ok''"]
    by simp
  have b: "req_do (\<lambda>n. if n < 1 then Inl ?r else Inr ''ok'') = (Inr ''ok'', 2)"
    using req_retry_bound [where Do = "\<lambda>n. if n < 1 then Inl ?r else Inr ''ok''"
        and r = "''ok''" and ?e0.0 = ?r] t
    by simp
  have c: "req_do (\<lambda>n. if n < 2 then Inl ?t else Inr ''ok'') = (Inr ''ok'', 3)"
    using req_retry_bound [where Do = "\<lambda>n. if n < 2 then Inl ?t else Inr ''ok''"
        and r = "''ok''" and ?e0.0 = ?t and ?e1.0 = ?t] t
    by simp
  have d: "req_do (\<lambda>n. Inl ?t :: url_Error + string) = (Inl (Wrap (Transport ?t) (method_name ''huobi'' ''Client'' ''req'')), 3)"
    using req_retry_bound [where Do = "\<lambda>n. Inl ?t :: url_Error + string"
        and ?e0.0 = ?t and ?e1.0 = ?t and ?e2.0 = ?t] t
    by simp
  have e: "req_do (\<lambda>n. Inl ?h :: url_Error + string) = (Inl (Wrap (Transport ?h) (method_name ''huobi'' ''Client'' ''req'')), 1)"
    using req_retry_bound [where Do = "\<lambda>n. Inl ?h :: url_Error + string" and ?e0.0 = ?h] t
    by simp
  have f: "req_do (\<lambda>n. if n < 1 then Inl ?t else Inl ?h :: url_Error + string) = (Inl (Wrap (Transport ?h) (method_name ''huobi'' ''Client'' ''req'')), 2)"
    using req_retry_bound [where Do = "\<lambda>n. if n < 1 then Inl ?t else Inl ?h :: url_Error + string"
        and ?e0.0 = ?t and ?e1.0 = ?h] t
    by simp
  have g: "req_do (\<lambda>n. if n < 3 then Inl ?t else Inr ''late'') = req_do (\<lambda>n. Inl ?t)"
    using req_retry_bound [where Do = "\<lambda>n. if n < 3 then Inl ?t else Inr ''late''"
        and Do' = "\<lambda>n. Inl ?t"]
    by simp
  show ?thesis by (intro conjI a b c d e f g)
qed

section \<open>Signing\<close>

lemma map_insort_key: "map f (insort_key f x xs) = insort (f x) (map f xs)"
  by (induction xs) simp_all

lemma map_sort_key: "map f (sort_key f xs) = sort (map f xs)"
  by (induction xs) (simp_all add: map_insort_key)

lemma lookup_entry: "distinct (map fst m) \<Longrightarrow> (k, v) \<in> set m \<Longrightarrow> lookup m k = v"
  by (simp add: lookup_def)

lemma querystring_canonical:
  assumes "distinct (map fst m)"
  shows "querystring m = canonical_query m"
proof -
  have "map (\<lambda>k. QueryEscape k @ ''='' @ QueryEscape (lookup m k)) (sort (map fst m)) =
      map ((\<lambda>k. QueryEscape k @ ''='' @ QueryEscape (lookup m k)) \<circ> fst) (sort_key fst m)"
    by (simp add: map_sort_key [symmetric])
  also have "\<dots> = map (\<lambda>(k, v). QueryEscape k @ ''='' @ QueryEscape v) (sort_key fst m)"
    using assms by (auto intro!: map_cong simp: lookup_entry)
  finally show ?thesis
    by (simp add: querystring_def canonical_query_def)
qed

lemma querystring_order:
  assumes "distinct (map fst m)" "distinct (map fst m')" "set m = set m'"
  shows "querystring m = querystring m'"
proof -
  have k: "sort (map fst m) = sort (map fst m')"
    using assms by (intro sorted_distinct_set_unique) simp_all
  have "map_of m = map_of m'"
    using assms by (simp add: map_of_inject_set)
  then have "lookup m = lookup m'"
    by (simp add: lookup_def fun_eq_iff)
  with k show ?thesis
    by (simp add: querystring_def)
qed

lemma hmac_key_block:
  "key_block k = key_block k' \<Longrightarrow> hmac_sha256 k msg = hmac_sha256 k' msg"
  by (simp add: hmac_sha256_def)

lemma length_round256: "length (round256 st kw) = length st"
  by (simp add: round256_def Let_def split: list.splits)

lemma length_foldl_round256: "length (foldl round256 st kws) = length st"
  by (induction kws arbitrary: st) (simp_all add: length_round256)

lemma length_compress: "length (compress st block) = length st"
  by (simp add: compress_def length_foldl_round256)

lemma length_foldl_compress: "length (foldl compress st blocks) = length st"
  by (induction blocks arbitrary: st) (simp_all add: length_compress)

lemma length_bytes_of32s: "length (concat (map bytes_of32 ws)) = 4 * length ws"
  by (induction ws) (simp_all add: bytes_of32_def)

lemma length_init256: "length init256 = 8"
  by code_simp

lemma length_sha256: "length (sha256 msg) = 32"
  by (simp add: sha256_def Let_def length_bytes_of32s length_foldl_compress length_init256)

lemma length_base64: "length (base64 bs) = 4 * ((length bs + 2) div 3)"
proof (induction bs rule: base64.induct)
  case (1 a b c rest)
  have "4 + 4 * ((length rest + 2) div 3) = 4 * ((length rest + 5) div 3)"
    by presburger
  with 1 show ?case by (simp add: Let_def add.commute)
qed (simp_all add: Let_def)

lemma length_hmac: "length (hmac_sha256 k msg) = 32"
  by (simp add: hmac_sha256_def Let_def length_sha256)

lemma length_sign: "length (sign c content) = 44"
  by (simp add: sign_def length_base64 length_hmac)

lemma collision:
  fixes f :: "string \<Rightarrow> string"
  assumes "\<And>x. length (f x) = 44"
  shows "\<exists>x y. x \<noteq> y \<and> f x = f y"
proof (rule ccontr)
  assume "\<not> (\<exists>x y. x \<noteq> y \<and> f x = f y)"
  then have "inj f"
    by (auto simp: inj_on_def)
  have "finite {s :: string. set s \<subseteq> UNIV \<and> length s = 44}"
    by (rule finite_lists_length_eq) simp
  moreover have "range f \<subseteq> {s :: string. set s \<subseteq> UNIV \<and> length s = 44}"
    using assms by auto
  ultimately have "finite (range f)"
    by (rule rev_finite_subset)
  from this \<open>inj f\<close> have "finite (UNIV :: string set)"
    by (rule finite_imageD)
  then show False
    by (simp add: infinite_UNIV_listI)
qed

text \<open>
  C9, as the code has it.  For a map (distinct keys) the query string that \<open>querystring\<close>
  builds is the canonical one: the parameters sorted by key, key and value escaped,
  joined with \<open>&\<close>; it does not depend on the order in which the map is traversed.
  The signature is the Base64 text of the HMAC-SHA256, under the client's secret, of
  method, host, path and query string separated by line feeds.  Equal inputs give equal
  signatures.  A change of the method, the host, the path or the query string alone
  changes the string that is signed; a change of the secret that keeps its HMAC key
  block leaves every signature as it was.  Every signature has 44 characters, so for
  each of method, host, path and query string, the others fixed, two different values
  have the same signature.
\<close>

theorem signature_spec:
  "(distinct (map fst m) \<longrightarrow> querystring m = canonical_query m) \<and>
   (distinct (map fst m) \<and> distinct (map fst m') \<and> set m = set m' \<longrightarrow>
      querystring m = querystring m') \<and>
   req_signature c method host path m =
     base64 (hmac_sha256 (bytes (Client_secret c))
       (bytes (method @ [CHR 0x0A] @ host @ [CHR 0x0A] @ path @ [CHR 0x0A] @ querystring m))) \<and>
   (method = method' \<and> host = host' \<and> path = path' \<and> querystring m = querystring m' \<and>
    Client_secret c = Client_secret c' \<longrightarrow>
      req_signature c method host path m = req_signature c' method' host' path' m') \<and>
   (method \<noteq> method' \<longrightarrow>
      req_content method host path query \<noteq> req_content method' host path query) \<and>
   (host \<noteq> host' \<longrightarrow>
      req_content method host path query \<noteq> req_content method host' path query) \<and>
   (path \<noteq> path' \<longrightarrow>
      req_content method host path query \<noteq> req_content method host path' query) \<and>
   (query \<noteq> query' \<longrightarrow>
      req_content method host path query \<noteq> req_content method host path query') \<and>
   (method = method' \<and> host = host' \<and> path = path' \<and> querystring m = querystring m' \<and>
    key_block (bytes (Client_secret c)) = key_block (bytes (Client_secret c')) \<longrightarrow>
      req_signature c method host path m = req_signature c' method' host' path' m') \<and>
   length (req_signature c method host path m) = 44 \<and>
   (\<exists>x y. x \<noteq> y \<and>
      sign c (req_content x host path query) = sign c (req_content y host path query)) \<and>
   (\<exists>x y. x \<noteq> y \<and>
      sign c (req_content method x path query) = sign c (req_content method y path query)) \<and>
   (\<exists>x y. x \<noteq> y \<and>
      sign c (req_content method host x query) = sign c (req_content method host y query)) \<and>
   (\<exists>x y. x \<noteq> y \<and>
      sign c (req_content method host path x) = sign c (req_content method host path y))"
proof -
  have a: "distinct (map fst m) \<longrightarrow> querystring m = canonical_query m"
    using querystring_canonical by blast
  have b: "distinct (map fst m) \<and> distinct (map fst m') \<and> set m = set m' \<longrightarrow>
      querystring m = querystring m'"
    using querystring_order by blast
  have c: "req_signature c method host path m =
     base64 (hmac_sha256 (bytes (Client_secret c))
       (bytes (method @ [CHR 0x0A] @ host @ [CHR 0x0A] @ path @ [CHR 0x0A] @ querystring m)))"
    by (simp only: req_signature_def sign_def req_content_def)
  have k: "req_signature c method host path m = req_signature c' method' host' path' m'"
    if "method = method'" "host = host'" "path = path'" "querystring m = querystring m'"
      "key_block (bytes (Client_secret c)) = key_block (bytes (Client_secret c'))"
    unfolding req_signature_def sign_def that(1-4)
    by (simp only: hmac_key_block [OF that(5)])
  have d: "method = method' \<and> host = host' \<and> path = path' \<and> querystring m = querystring m' \<and>
    Client_secret c = Client_secret c' \<longrightarrow>
      req_signature c method host path m = req_signature c' method' host' path' m'"
    using k by simp
  have e: "method = method' \<and> host = host' \<and> path = path' \<and> querystring m = querystring m' \<and>
    key_block (bytes (Client_secret c)) = key_block (bytes (Client_secret c')) \<longrightarrow>
      req_signature c method host path m = req_signature c' method' host' path' m'"
    using k by simp
  have f: "method \<noteq> method' \<longrightarrow>
      req_content method host path query \<noteq> req_content method' host path query"
    "host \<noteq> host' \<longrightarrow>
      req_content method host path query \<noteq> req_content method host' path query"
    "path \<noteq> path' \<longrightarrow>
      req_content method host path query \<noteq> req_content method host path' query"
    "query \<noteq> query' \<longrightarrow>
      req_content method host path query \<noteq> req_content method host path query'"
    by (simp_all add: req_content_def)
  have g: "length (req_signature c method host path m) = 44"
    by (simp add: req_signature_def length_sign)
  have h: "\<exists>x y. x \<noteq> y \<and>
      sign c (req_content x host path query) = sign c (req_content y host path query)"
    "\<exists>x y. x \<noteq> y \<and>
      sign c (req_content method x path query) = sign c (req_content method y path query)"
    "\<exists>x y. x \<noteq> y \<and>
      sign c (req_content method host x query) = sign c (req_content method host y query)"
    "\<exists>x y. x \<noteq> y \<and>
      sign c (req_content method host path x) = sign c (req_content method host path y)"
    by (rule collision, rule length_sign)+
  show ?thesis by (intro conjI a b c d e f g h)
qed

theorem signature_spec_witness:
  "distinct (map fst ex_compute) \<and>
   querystring ex_compute = canonical_query ex_compute \<and>
   querystring ex_compute =
     ''AccessKeyId=apikey&SignatureMethod=HmacSHA256&SignatureVersion=2&Timestamp=2018-09-08T03%3A20%3A45&symbol=btcusdt'' \<and>
   querystring (rev ex_compute) = querystring ex_compute \<and>
   req_signature ex_client ''GET'' ''api.huobi.pro'' ''/market/trade'' (rev ex_compute) =
     req_signature ex_client ''GET'' ''api.huobi.pro'' ''/market/trade'' ex_compute \<and>
   req_content ''GET'' ''api.huobi.pro'' ''/market/trade'' (querystring ex_compute) \<noteq>
     req_content ''POST'' ''api.huobi.pro'' ''/market/trade'' (querystring ex_compute) \<and>
   req_content ''GET'' ''api.huobi.pro'' ''/market/trade'' (querystring ex_compute) \<noteq>
     req_content ''GET'' ''api.huobi.com'' ''/market/trade'' (querystring ex_compute) \<and>
   req_content ''GET'' ''api.huobi.pro'' ''/market/trade'' (querystring ex_compute) \<noteq>
     req_content ''GET'' ''api.huobi.pro'' ''/market/depth'' (querystring ex_compute) \<and>
   req_content ''GET'' ''api.huobi.pro'' ''/market/trade'' (querystring ex_compute) \<noteq>
     req_content ''GET'' ''api.huobi.pro'' ''/market/trade'' ''symbol=ethusdt'' \<and>
   length (req_signature ex_client ''GET'' ''api.huobi.pro'' ''/market/trade'' ex_compute) = 44"
proof -
  have d1: "distinct (map fst ex_compute)" "distinct (map fst (rev ex_compute))"
    by (simp_all add: ex_compute_def)
  have d2: "set (rev ex_compute) = set ex_compute"
    by (rule set_rev)
  have q: "querystring ex_compute =
     ''AccessKeyId=apikey&SignatureMethod=HmacSHA256&SignatureVersion=2&Timestamp=2018-09-08T03%3A20%3A45&symbol=btcusdt''"
    by code_simp
  have c: "querystring ex_compute = canonical_query ex_compute"
    by (rule signature_spec [THEN conjunct1, THEN mp]) (rule d1(1))
  have r: "querystring (rev ex_compute) = querystring ex_compute"
    by (rule signature_spec [THEN conjunct2, THEN conjunct1, THEN mp]) (intro conjI d1 d2)
  have s: "req_signature ex_client ''GET'' ''api.huobi.pro'' ''/market/trade'' (rev ex_compute) =
     req_signature ex_client ''GET'' ''api.huobi.pro'' ''/market/trade'' ex_compute"
    by (rule signature_spec [THEN conjunct2, THEN conjunct2, THEN conjunct2, THEN conjunct1, THEN mp])
      (intro conjI refl r)
  have n: "''GET'' \<noteq> ''POST''" "''api.huobi.pro'' \<noteq> ''api.huobi.com''"
    "''/market/trade'' \<noteq> ''/market/depth''" "querystring ex_compute \<noteq> ''symbol=ethusdt''"
    by (simp_all add: q)
  note p = signature_spec [THEN conjunct2, THEN conjunct2, THEN conjunct2, THEN conjunct2]
  have x1: "req_content ''GET'' ''api.huobi.pro'' ''/market/trade'' (querystring ex_compute) \<noteq>
     req_content ''POST'' ''api.huobi.pro'' ''/market/trade'' (querystring ex_compute)"
    by (rule p [THEN conjunct1, THEN mp]) (rule n(1))
  have x2: "req_content ''GET'' ''api.huobi.pro'' ''/market/trade'' (querystring ex_compute) \<noteq>
     req_content ''GET'' ''api.huobi.com'' ''/market/trade'' (querystring ex_compute)"
    by (rule p [THEN conjunct2, THEN conjunct1, THEN mp]) (rule n(2))
  have x3: "req_content ''GET'' ''api.huobi.pro'' ''/market/trade'' (querystring ex_compute) \<noteq>
     req_content ''GET'' ''api.huobi.pro'' ''/market/depth'' (querystring ex_compute)"
    by (rule p [THEN conjunct2, THEN conjunct2, THEN conjunct1, THEN mp]) (rule n(3))
  have x4: "req_content ''GET'' ''api.huobi.pro'' ''/market/trade'' (querystring ex_compute) \<noteq>
     req_content ''GET'' ''api.huobi.pro'' ''/market/trade'' ''symbol=ethusdt''"
    by (rule p [THEN conjunct2, THEN conjunct2, THEN conjunct2, THEN conjunct1, THEN mp]) (rule n(4))
  have l: "length (req_signature ex_client ''GET'' ''api.huobi.pro'' ''/market/trade'' ex_compute) = 44"
    by (rule p [THEN conjunct2, THEN conjunct2, THEN conjunct2, THEN conjunct2, THEN conjunct2,
          THEN conjunct1])
  show ?thesis by (intro conjI d1(1) c q r s x1 x2 x3 x4 l)
qed

text \<open>
  C9 as stated fails.  A secret followed by a zero byte is a different secret with the
  same key block, and signs every request as the secret itself does.  And as the
  signatures of the example client are strings of 44 characters, two different methods
  have the same signature, the other inputs fixed, and so have two hosts, two paths and
  two query strings.
\<close>

theorem signature_counterexample:
  "Client_secret ex_client \<noteq> Client_secret (ex_client\<lparr>Client_secret := ''apisecret'' @ [CHR 0x00]\<rparr>) \<and>
   req_signature ex_client ''GET'' ''api.huobi.pro'' ''/market/trade'' ex_compute =
   req_signature (ex_client\<lparr>Client_secret := ''apisecret'' @ [CHR 0x00]\<rparr>)
     ''GET'' ''api.huobi.pro'' ''/market/trade'' ex_compute \<and>
   (\<exists>x y. x \<noteq> y \<and>
      sign ex_client (req_content x ''api.huobi.pro'' ''/market/trade'' (querystring ex_compute)) =
      sign ex_client (req_content y ''api.huobi.pro'' ''/market/trade'' (querystring ex_compute))) \<and>
   (\<exists>x y. x \<noteq> y \<and>
      sign ex_client (req_content ''GET'' x ''/market/trade'' (querystring ex_compute)) =
      sign ex_client (req_content ''GET'' y ''/market/trade'' (querystring ex_compute))) \<and>
   (\<exists>x y. x \<noteq> y \<and>
      sign ex_client (req_content ''GET'' ''api.huobi.pro'' x (querystring ex_compute)) =
      sign ex_client (req_content ''GET'' ''api.huobi.pro'' y (querystring ex_compute))) \<and>
   (\<exists>x y. x \<noteq> y \<and>
      sign ex_client (req_content ''GET'' ''api.huobi.pro'' ''/market/trade'' x) =
      sign ex_client (req_content ''GET'' ''api.huobi.pro'' ''/market/trade'' y))"
proof -
  have "key_block (bytes ''apisecret'') = key_block (bytes (''apisecret'' @ [CHR 0x00]))"
    by (simp add: key_block_def bytes_def numeral_eq_Suc)
  then have "hmac_sha256 (bytes ''apisecret'') x = hmac_sha256 (bytes (''apisecret'' @ [CHR 0x00])) x"
    for x
    by (rule hmac_key_block)
  moreover have "Client_secret ex_client = ''apisecret''"
    by (simp add: ex_client_def)
  ultimately have k: "Client_secret ex_client \<noteq>
      Client_secret (ex_client\<lparr>Client_secret := ''apisecret'' @ [CHR 0x00]\<rparr>)"
    "req_signature ex_client ''GET'' ''api.huobi.pro'' ''/market/trade'' ex_compute =
     req_signature (ex_client\<lparr>Client_secret := ''apisecret'' @ [CHR 0x00]\<rparr>)
       ''GET'' ''api.huobi.pro'' ''/market/trade'' ex_compute"
    by (simp_all add: req_signature_def sign_def)
  have h: "\<exists>x y. x \<noteq> y \<and>
      sign ex_client (req_content x ''api.huobi.pro'' ''/market/trade'' (querystring ex_compute)) =
      sign ex_client (req_content y ''api.huobi.pro'' ''/market/trade'' (querystring ex_compute))"
    "\<exists>x y. x \<noteq> y \<and>
      sign ex_client (req_content ''GET'' x ''/market/trade'' (querystring ex_compute)) =
      sign ex_client (req_content ''GET'' y ''/market/trade'' (querystring ex_compute))"
    "\<exists>x y. x \<noteq> y \<and>
      sign ex_client (req_content ''GET'' ''api.huobi.pro'' x (querystring ex_compute)) =
      sign ex_client (req_content ''GET'' ''api.huobi.pro'' y (querystring ex_compute))"
    "\<exists>x y. x \<noteq> y \<and>
      sign ex_client (req_content ''GET'' ''api.huobi.pro'' ''/market/trade'' x) =
      sign ex_client (req_content ''GET'' ''api.huobi.pro'' ''/market/trade'' y)"
    by (rule collision, rule length_sign)+
  show ?thesis by (intro conjI k h)
qed

section \<open>Formatting amounts and prices\<close>

lemma trade_params_amount:
  "map_of (trade_params s i cmd amnt prc) ''amount'' =
     Some (floor_str amnt (Symbol_AmountPrecision s))"
  by (simp add: trade_params_def)

lemma trade_params_price:
  "map_of (trade_params s i cmd amnt prc) ''price'' =
     (if cmd = BuyLimit \<or> cmd = SellLimit
      then Some (floor_str prc (Symbol_PricePrecision s)) else None)"
  by (simp add: trade_params_def)

text \<open>
  C5.  \<open>floor\<close> multiplies by \<open>10^prec\<close>, takes \<open>math.Floor\<close>, divides and prints
  the shortest decimal.  It prints 0.123456 at precision 4 as \<open>0.1234\<close> and 123.456 at
  precision 0 as \<open>123\<close>, and \<open>Trade\<close> formats the amount at the symbol's amount
  precision for every order and the price at its price precision for limit orders only.
  But the product is rounded to a float64 before the floor is taken: the amount
  0.8999999999999999 times 10 is 9 in float64, and \<open>floor\<close> prints it at precision 1
  as \<open>0.9\<close>, which is more than the amount.
\<close>

theorem floor_rounds_up:
  "FormatFloat (literal 8999999999999999 10000000000000000) = ''0.8999999999999999'' \<and>
   f64_mul (literal 8999999999999999 10000000000000000) (Pow10 1) = literal 9 1 \<and>
   floor_str (literal 8999999999999999 10000000000000000) 1 = ''0.9'' \<and>
   f64_lt (literal 8999999999999999 10000000000000000) (literal 9 10) \<and>
   floor_str (literal 123456 1000000) 4 = ''0.1234'' \<and>
   floor_str (literal 123456 1000) 0 = ''123'' \<and>
   map_of (trade_params s i cmd amnt prc) ''amount'' =
     Some (floor_str amnt (Symbol_AmountPrecision s)) \<and>
   map_of (trade_params s i cmd amnt prc) ''price'' =
     (if cmd = BuyLimit \<or> cmd = SellLimit
      then Some (floor_str prc (Symbol_PricePrecision s)) else None)"
proof -
  have a: "FormatFloat (literal 8999999999999999 10000000000000000) = ''0.8999999999999999''"
    by code_simp
  have b: "f64_mul (literal 8999999999999999 10000000000000000) (Pow10 1) = literal 9 1"
    by code_simp
  have c: "floor_str (literal 8999999999999999 10000000000000000) 1 = ''0.9''"
    by code_simp
  have d: "f64_lt (literal 8999999999999999 10000000000000000) (literal 9 10)"
    by code_simp
  have e: "floor_str (literal 123456 1000000) 4 = ''0.1234''"
    by code_simp
  have f: "floor_str (literal 123456 1000) 0 = ''123''"
    by code_simp
  show ?thesis
    by (intro conjI a b c d e f trade_params_amount trade_params_price)
qed

theorem floor_rounds_up_witness:
  "floor_str (literal 8999999999999999 10000000000000000) 1 = ''0.9'' \<and>
   f64_lt (literal 8999999999999999 10000000000000000) (literal 9 10) \<and>
   map_of (trade_params \<lparr>Symbol_Symbol = ''btcusdt'', Symbol_BaseCurrency = ''btc'',
          Symbol_QuoteCurrency = ''usdt'', Symbol_PricePrecision = 2,
          Symbol_AmountPrecision = 1, Symbol_SymbolPartition = ''main''\<rparr> 7 ''buy-market''
        (literal 8999999999999999 10000000000000000) (literal (- 1) 1)) ''amount'' = Some ''0.9'' \<and>
   map_of (trade_params \<lparr>Symbol_Symbol = ''btcusdt'', Symbol_BaseCurrency = ''btc'',
          Symbol_QuoteCurrency = ''usdt'', Symbol_PricePrecision = 2,
          Symbol_AmountPrecision = 1, Symbol_SymbolPartition = ''main''\<rparr> 7 ''buy-market''
        (literal 8999999999999999 10000000000000000) (literal (- 1) 1)) ''price'' = None"
  using floor_rounds_up [of "\<lparr>Symbol_Symbol = ''btcusdt'', Symbol_BaseCurrency = ''btc'',
          Symbol_QuoteCurrency = ''usdt'', Symbol_PricePrecision = 2,
          Symbol_AmountPrecision = 1, Symbol_SymbolPartition = ''main''\<rparr>" 7 "''buy-market''"
        "literal 8999999999999999 10000000000000000" "literal (- 1) 1"]
  by (simp add: BuyLimit_def SellLimit_def)

section \<open>The plan\<close>

lemma stateFlush_ok:
  "stateFlush env p = (None, p') \<Longrightarrow>
     equity p' = f64_mul (price p') (position p') \<and> position p' = position p \<and>
     investment p' = investment p"
  by (auto simp: stateFlush_def split: sum.splits)

lemma stateFlush_cases:
  "stateFlush env p = (r, p') \<Longrightarrow>
     position p' = position p \<and> investment p' = investment p"
  by (auto simp: stateFlush_def split: sum.splits)

lemma stateUpdate_ok:
  "stateUpdate env order p = (None, p') \<Longrightarrow> equity p' = f64_mul (price p') (position p')"
  by (auto simp: stateUpdate_def split: prod.splits option.splits dest: stateFlush_ok)

lemma stateUpdate_fields:
  "stateUpdate env order p = (r, p') \<Longrightarrow>
     position p' = f64_add (position p) (OpenOrder_FieldAmount order) \<and>
     investment p' = f64_add (investment p) (OpenOrder_FieldCashAmount order)"
  by (auto simp: stateUpdate_def split: prod.splits option.splits dest: stateFlush_cases)

lemma f64_eq_refl: "\<not> IsNaN x \<Longrightarrow> f64_eq x x"
  by (cases x) simp_all

lemma Invest_persisted:
  assumes "the_trade env p = Inr order"
    and "env_insert_order env (order_row (normalize order)) = None"
  shows "\<exists>r p'. Invest env (p, d) = (r, p', d\<lparr>db_orders := db_orders d @ [order_row (normalize order)]\<rparr>) \<and>
     position p' = f64_add (position p) (OpenOrder_FieldAmount (normalize order)) \<and>
     investment p' = f64_add (investment p) (OpenOrder_FieldCashAmount (normalize order))"
proof -
  obtain r p' where u: "stateUpdate env (normalize order) p = (r, p')"
    by (cases "stateUpdate env (normalize order) p") auto
  from u have f: "position p' = f64_add (position p) (OpenOrder_FieldAmount (normalize order)) \<and>
     investment p' = f64_add (investment p) (OpenOrder_FieldCashAmount (normalize order))"
    by (rule stateUpdate_fields)
  from assms u have "Invest env (p, d) =
      (map_option (\<lambda>e. Wrap e (method_name ''plan'' ''plan'' ''Invest'')) r, p',
       d\<lparr>db_orders := db_orders d @ [order_row (normalize order)]\<rparr>)"
    by (cases r) (simp_all add: Invest_def the_trade_def addOrder_def AddOrder_def)
  with f show ?thesis by blast
qed

lemma f64_div_zero: "IsZero y \<Longrightarrow> \<not> IsFinite (f64_div x y)"
  by (cases x; cases y) simp_all

lemma IsZero_neg: "IsZero (f64_neg y) = IsZero y"
  by (cases y) simp_all

lemma IsZero_normalize:
  "IsZero (OpenOrder_FieldAmount (normalize order)) = IsZero (OpenOrder_FieldAmount order)"
  by (simp add: normalize_def IsZero_neg)

text \<open>
  C1.  When \<open>Invest\<close> returns no error, and when \<open>Monitor\<close> returns no error, the
  equity of the state left behind is the float64 product of the price and the position
  of that same state.  The stored value is that product itself, so Go's \<open>==\<close> holds
  between them whenever it is not NaN (\<open>NaN == NaN\<close> is false in Go).
\<close>

theorem equity_invariant:
  "(Invest env (p, d) = (None, p', d') \<longrightarrow>
      equity p' = f64_mul (price p') (position p') \<and>
      (\<not> IsNaN (equity p') \<longrightarrow> f64_eq (equity p') (f64_mul (price p') (position p')))) \<and>
   (Monitor env (p, d) = (None, p', d') \<longrightarrow>
      equity p' = f64_mul (price p') (position p') \<and>
      (\<not> IsNaN (equity p') \<longrightarrow> f64_eq (equity p') (f64_mul (price p') (position p'))))"
proof -
  have i: "equity p' = f64_mul (price p') (position p')" if "Invest env (p, d) = (None, p', d')"
    using that
    by (auto simp: Invest_def split: sum.splits prod.splits option.splits dest: stateUpdate_ok)
  have m: "equity p' = f64_mul (price p') (position p')" if "Monitor env (p, d) = (None, p', d')"
    using that
    by (auto simp: Monitor_def split: prod.splits option.splits dest: stateFlush_ok)
  show ?thesis
    using i m f64_eq_refl [of "equity p'"] by auto
qed

theorem equity_invariant_witness:
  "fst (Invest ex_env (ex_plan, ex_db)) = None \<and>
   equity (fst (snd (Invest ex_env (ex_plan, ex_db)))) =
     f64_mul (price (fst (snd (Invest ex_env (ex_plan, ex_db)))))
       (position (fst (snd (Invest ex_env (ex_plan, ex_db))))) \<and>
   equity (fst (snd (Invest ex_env (ex_plan, ex_db)))) = literal 500 1 \<and>
   f64_eq (equity (fst (snd (Invest ex_env (ex_plan, ex_db)))))
     (f64_mul (price (fst (snd (Invest ex_env (ex_plan, ex_db)))))
       (position (fst (snd (Invest ex_env (ex_plan, ex_db)))))) \<and>
   fst (Monitor ex_env (ex_plan, ex_db)) = None \<and>
   equity (fst (snd (Monitor ex_env (ex_plan, ex_db)))) =
     f64_mul (price (fst (snd (Monitor ex_env (ex_plan, ex_db)))))
       (position (fst (snd (Monitor ex_env (ex_plan, ex_db))))) \<and>
   equity (fst (snd (Monitor ex_env (ex_plan, ex_db)))) = literal 400 1"
proof -
  have i: "fst (Invest ex_env (ex_plan, ex_db)) = None"
    by code_simp
  have m: "fst (Monitor ex_env (ex_plan, ex_db)) = None"
    by code_simp
  have ie: "equity (fst (snd (Invest ex_env (ex_plan, ex_db)))) = literal 500 1"
    by code_simp
  have me: "equity (fst (snd (Monitor ex_env (ex_plan, ex_db)))) = literal 400 1"
    by code_simp
  have nn: "\<not> IsNaN (equity (fst (snd (Invest ex_env (ex_plan, ex_db)))))"
    by code_simp
  from i have i': "Invest ex_env (ex_plan, ex_db) =
      (None, fst (snd (Invest ex_env (ex_plan, ex_db))), snd (snd (Invest ex_env (ex_plan, ex_db))))"
    by (metis prod.collapse)
  from m have m': "Monitor ex_env (ex_plan, ex_db) =
      (None, fst (snd (Monitor ex_env (ex_plan, ex_db))), snd (snd (Monitor ex_env (ex_plan, ex_db))))"
    by (metis prod.collapse)
  from i' m' i m ie me nn
    equity_invariant [of ex_env ex_plan ex_db "fst (snd (Invest ex_env (ex_plan, ex_db)))"
      "snd (snd (Invest ex_env (ex_plan, ex_db)))"]
    equity_invariant [of ex_env ex_plan ex_db "fst (snd (Monitor ex_env (ex_plan, ex_db)))"
      "snd (snd (Monitor ex_env (ex_plan, ex_db)))"]
  show ?thesis by blast
qed

text \<open>
  C2.  If the exchange returned a fill and the insert of its Order record fails,
  \<open>Invest\<close> returns that error, wrapped, and leaves the whole plan, position and
  investment included, and the database as they were.  Conversely, whenever \<open>Invest\<close>
  leaves a position or an investment that differs from the one it started with, the
  Order record of the fill had been inserted before.
\<close>

theorem persist_before_mutation:
  "(the_trade env p = Inr order \<and> env_insert_order env (order_row (normalize order)) = Some e \<longrightarrow>
      Invest env (p, d) = (Some (Wrap (Wrap e ''db.AddOrder'') (method_name ''plan'' ''plan'' ''Invest'')), p, d)) \<and>
   (Invest env (p, d) = (r, p', d') \<and>
      (position p' \<noteq> position p \<or> investment p' \<noteq> investment p) \<longrightarrow>
      (\<exists>order. the_trade env p = Inr order \<and>
         env_insert_order env (order_row (normalize order)) = None \<and>
         d' = d\<lparr>db_orders := db_orders d @ [order_row (normalize order)]\<rparr>))"
proof -
  have a: "Invest env (p, d) = (Some (Wrap (Wrap e ''db.AddOrder'') (method_name ''plan'' ''plan'' ''Invest'')), p, d)"
    if "the_trade env p = Inr order" "env_insert_order env (order_row (normalize order)) = Some e"
    using that by (simp add: Invest_def the_trade_def addOrder_def AddOrder_def)
  have b: "\<exists>order. the_trade env p = Inr order \<and>
         env_insert_order env (order_row (normalize order)) = None \<and>
         d' = d\<lparr>db_orders := db_orders d @ [order_row (normalize order)]\<rparr>"
    if "Invest env (p, d) = (r, p', d')" "position p' \<noteq> position p \<or> investment p' \<noteq> investment p"
    using that
    by (auto simp: Invest_def the_trade_def addOrder_def AddOrder_def
        split: sum.splits prod.splits option.splits)
  show ?thesis using a b by blast
qed

theorem persist_before_mutation_witness:
  "the_trade ex_env_db_fails ex_plan = Inr (ex_fill ''buy-limit'' (literal 5 10) (literal 100 1)) \<and>
   env_insert_order ex_env_db_fails
       (order_row (normalize (ex_fill ''buy-limit'' (literal 5 10) (literal 100 1))))
     = Some (External ''database is locked'') \<and>
   Invest ex_env_db_fails (ex_plan, ex_db) =
     (Some (Wrap (Wrap (External ''database is locked'') ''db.AddOrder'') (method_name ''plan'' ''plan'' ''Invest'')),
      ex_plan, ex_db) \<and>
   position (fst (snd (Invest ex_env (ex_plan, ex_db)))) \<noteq> position ex_plan \<and>
   db_orders (snd (snd (Invest ex_env (ex_plan, ex_db)))) =
     [order_row (ex_fill ''buy-limit'' (literal 5 10) (literal 100 1))]"
proof -
  have t: "the_trade ex_env_db_fails ex_plan =
      Inr (ex_fill ''buy-limit'' (literal 5 10) (literal 100 1))"
    by code_simp
  have f: "env_insert_order ex_env_db_fails
       (order_row (normalize (ex_fill ''buy-limit'' (literal 5 10) (literal 100 1))))
     = Some (External ''database is locked'')"
    by (simp add: ex_env_db_fails_def ex_env_of_def)
  have c: "position (fst (snd (Invest ex_env (ex_plan, ex_db)))) \<noteq> position ex_plan"
    by code_simp
  have t2: "the_trade ex_env ex_plan = Inr (ex_fill ''buy-limit'' (literal 5 10) (literal 100 1))"
    by code_simp
  have n: "normalize (ex_fill ''buy-limit'' (literal 5 10) (literal 100 1)) =
      ex_fill ''buy-limit'' (literal 5 10) (literal 100 1)"
    by (simp add: normalize_def ex_fill_def SellMarket_def SellLimit_def)
  have e: "Invest ex_env (ex_plan, ex_db) =
      (fst (Invest ex_env (ex_plan, ex_db)), fst (snd (Invest ex_env (ex_plan, ex_db))),
       snd (snd (Invest ex_env (ex_plan, ex_db))))"
    by simp
  from persist_before_mutation [of ex_env_db_fails ex_plan
      "ex_fill ''buy-limit'' (literal 5 10) (literal 100 1)" "External ''database is locked''" ex_db]
    t f
  have a: "Invest ex_env_db_fails (ex_plan, ex_db) =
     (Some (Wrap (Wrap (External ''database is locked'') ''db.AddOrder'') (method_name ''plan'' ''plan'' ''Invest'')),
      ex_plan, ex_db)"
    by blast
  from persist_before_mutation [of ex_env ex_plan _ _ ex_db "fst (Invest ex_env (ex_plan, ex_db))"
      "fst (snd (Invest ex_env (ex_plan, ex_db)))" "snd (snd (Invest ex_env (ex_plan, ex_db)))"]
    e c t2 n
  have b: "db_orders (snd (snd (Invest ex_env (ex_plan, ex_db)))) =
     [order_row (ex_fill ''buy-limit'' (literal 5 10) (literal 100 1))]"
    by (auto simp: ex_db_def)
  from t f a c b show ?thesis by blast
qed

text \<open>
  C3.  Once the fill is persisted, \<open>Invest\<close> leaves the position and the investment
  decreased by the filled base and quote amounts when the fill's type is \<open>sell-market\<close>
  or \<open>sell-limit\<close>, and increased by them, unchanged, when it is \<open>buy-market\<close> or
  \<open>buy-limit\<close>.  In the example a sell fill of 0.5 for 100 takes a position of 2 to
  1.5 and an investment of 1000 to 900.
\<close>

theorem sell_side_normalization:
  "the_trade env p = Inr order \<and> env_insert_order env (order_row (normalize order)) = None \<longrightarrow>
     (OpenOrder_Type order = SellMarket \<or> OpenOrder_Type order = SellLimit \<longrightarrow>
        position (fst (snd (Invest env (p, d)))) = f64_sub (position p) (OpenOrder_FieldAmount order) \<and>
        investment (fst (snd (Invest env (p, d)))) =
          f64_sub (investment p) (OpenOrder_FieldCashAmount order)) \<and>
     (OpenOrder_Type order = BuyMarket \<or> OpenOrder_Type order = BuyLimit \<longrightarrow>
        position (fst (snd (Invest env (p, d)))) = f64_add (position p) (OpenOrder_FieldAmount order) \<and>
        investment (fst (snd (Invest env (p, d)))) =
          f64_add (investment p) (OpenOrder_FieldCashAmount order))"
proof (intro impI, elim conjE)
  assume t: "the_trade env p = Inr order"
    and i: "env_insert_order env (order_row (normalize order)) = None"
  from Invest_persisted [OF t i, of d] obtain r p' where
    inv: "Invest env (p, d) = (r, p', d\<lparr>db_orders := db_orders d @ [order_row (normalize order)]\<rparr>)"
    and pos: "position p' = f64_add (position p) (OpenOrder_FieldAmount (normalize order))"
    and ivm: "investment p' = f64_add (investment p) (OpenOrder_FieldCashAmount (normalize order))"
    by blast
  show "(OpenOrder_Type order = SellMarket \<or> OpenOrder_Type order = SellLimit \<longrightarrow>
        position (fst (snd (Invest env (p, d)))) = f64_sub (position p) (OpenOrder_FieldAmount order) \<and>
        investment (fst (snd (Invest env (p, d)))) =
          f64_sub (investment p) (OpenOrder_FieldCashAmount order)) \<and>
     (OpenOrder_Type order = BuyMarket \<or> OpenOrder_Type order = BuyLimit \<longrightarrow>
        position (fst (snd (Invest env (p, d)))) = f64_add (position p) (OpenOrder_FieldAmount order) \<and>
        investment (fst (snd (Invest env (p, d)))) =
          f64_add (investment p) (OpenOrder_FieldCashAmount order))"
    unfolding inv using pos ivm
    by (auto simp: normalize_def f64_sub_def SellMarket_def SellLimit_def BuyMarket_def BuyLimit_def)
qed

theorem sell_side_normalization_witness:
  "the_trade ex_env_sell ex_plan = Inr (ex_fill ''sell-limit'' (literal 5 10) (literal 100 1)) \<and>
   position ex_plan = literal 2 1 \<and> investment ex_plan = literal 1000 1 \<and>
   position (fst (snd (Invest ex_env_sell (ex_plan, ex_db)))) = f64_sub (literal 2 1) (literal 5 10) \<and>
   investment (fst (snd (Invest ex_env_sell (ex_plan, ex_db)))) =
     f64_sub (literal 1000 1) (literal 100 1) \<and>
   f64_sub (literal 2 1) (literal 5 10) = literal 15 10 \<and>
   f64_sub (literal 1000 1) (literal 100 1) = literal 900 1 \<and>
   position (fst (snd (Invest ex_env (ex_plan, ex_db)))) = f64_add (literal 2 1) (literal 5 10) \<and>
   investment (fst (snd (Invest ex_env (ex_plan, ex_db)))) =
     f64_add (literal 1000 1) (literal 100 1)"
proof -
  have t: "the_trade ex_env_sell ex_plan =
      Inr (ex_fill ''sell-limit'' (literal 5 10) (literal 100 1))"
    by code_simp
  have i: "env_insert_order ex_env_sell
      (order_row (normalize (ex_fill ''sell-limit'' (literal 5 10) (literal 100 1)))) = None"
    by (simp add: ex_env_sell_def ex_env_of_def)
  have t2: "the_trade ex_env ex_plan = Inr (ex_fill ''buy-limit'' (literal 5 10) (literal 100 1))"
    by code_simp
  have i2: "env_insert_order ex_env
      (order_row (normalize (ex_fill ''buy-limit'' (literal 5 10) (literal 100 1)))) = None"
    by (simp add: ex_env_def ex_env_of_def)
  have p: "position ex_plan = literal 2 1" "investment ex_plan = literal 1000 1"
    by (simp_all add: ex_plan_def)
  have k: "OpenOrder_Type (ex_fill ''sell-limit'' (literal 5 10) (literal 100 1)) = SellLimit"
    "OpenOrder_Type (ex_fill ''buy-limit'' (literal 5 10) (literal 100 1)) = BuyLimit"
    "OpenOrder_FieldAmount (ex_fill kind (literal 5 10) (literal 100 1)) = literal 5 10"
    "OpenOrder_FieldCashAmount (ex_fill kind (literal 5 10) (literal 100 1)) = literal 100 1"
    for kind
    by (simp_all add: ex_fill_def SellLimit_def BuyLimit_def)
  have v: "f64_sub (literal 2 1) (literal 5 10) = literal 15 10"
    "f64_sub (literal 1000 1) (literal 100 1) = literal 900 1"
    by code_simp+
  from sell_side_normalization [of ex_env_sell ex_plan
      "ex_fill ''sell-limit'' (literal 5 10) (literal 100 1)" ex_db]
    sell_side_normalization [of ex_env ex_plan
      "ex_fill ''buy-limit'' (literal 5 10) (literal 100 1)" ex_db]
    t i t2 i2 p k v
  show ?thesis by simp
qed

text \<open>
  C6.  \<open>New\<close> returns no plan when the summary query fails, and none when the price
  lookup of the first flush fails.  Otherwise it returns a plan whose position and
  investment are the pair the summary query returned, and whose equity is the price
  times that position: the flush ran on the seeded state.
\<close>

theorem New_seeds_state:
  "(env_summary env = Inl e \<longrightarrow> (\<exists>e'. New env symbol amount period client = Inl e')) \<and>
   (env_summary env = Inr (pos, ivm) \<and> SymbolPrice env symbol = Inl e \<longrightarrow>
      (\<exists>e'. New env symbol amount period client = Inl e')) \<and>
   (env_summary env = Inr (pos, ivm) \<and> SymbolPrice env symbol = Inr pr \<longrightarrow>
      (\<exists>p. New env symbol amount period client = Inr p \<and>
         position p = pos \<and> investment p = ivm \<and> price p = pr \<and>
         equity p = f64_mul pr pos \<and> plan_symbol p = symbol \<and> plan_amount p = amount \<and>
         plan_period p = period \<and> plan_client p = client))"
  by (simp add: New_def stateInit_def OrderSummary_def stateFlush_def)

theorem New_seeds_state_witness:
  "env_summary ex_env = Inr (literal 12 10, literal 8000 1) \<and>
   SymbolPrice ex_env ''btcusdt'' = Inr (literal 200 1) \<and>
   (\<exists>p. New ex_env ''btcusdt'' (literal 100 1) (Daily \<lparr>hour = 0, minute = 0, second = 0\<rparr>) ex_client
        = Inr p \<and>
      position p = literal 12 10 \<and> investment p = literal 8000 1 \<and>
      equity p = f64_mul (literal 200 1) (literal 12 10)) \<and>
   (\<exists>e'. New (ex_env\<lparr>env_summary := Inl (External ''sql: Scan error'')\<rparr>) ''btcusdt'' (literal 100 1)
        (Daily \<lparr>hour = 0, minute = 0, second = 0\<rparr>) ex_client = Inl e') \<and>
   (\<exists>e'. New (ex_env\<lparr>env_ticks := (\<lambda>name. Inr [])\<rparr>) ''btcusdt'' (literal 100 1)
        (Daily \<lparr>hour = 0, minute = 0, second = 0\<rparr>) ex_client = Inl e')"
proof -
  have s: "env_summary ex_env = Inr (literal 12 10, literal 8000 1)"
    by (simp add: ex_env_def ex_env_of_def)
  have pr: "SymbolPrice ex_env ''btcusdt'' = Inr (literal 200 1)"
    by (simp add: SymbolPrice_def ex_env_def ex_env_of_def)
  have s2: "env_summary (ex_env\<lparr>env_summary := Inl (External ''sql: Scan error'')\<rparr>) =
      Inl (External ''sql: Scan error'')"
    by simp
  have s3: "env_summary (ex_env\<lparr>env_ticks := (\<lambda>name. Inr [])\<rparr>) = Inr (literal 12 10, literal 8000 1)"
    by (simp add: ex_env_def ex_env_of_def)
  have pr3: "SymbolPrice (ex_env\<lparr>env_ticks := (\<lambda>name. Inr [])\<rparr>) ''btcusdt'' =
      Inl (Wrap ErrSymbolPriceFailed (method_name ''huobi'' ''Client'' ''SymbolPrice''))"
    by (simp add: SymbolPrice_def)
  from New_seeds_state [of ex_env _ "''btcusdt''" "literal 100 1"
      "Daily \<lparr>hour = 0, minute = 0, second = 0\<rparr>" ex_client "literal 12 10" "literal 8000 1"
      "literal 200 1"]
    New_seeds_state [of "ex_env\<lparr>env_summary := Inl (External ''sql: Scan error'')\<rparr>"
      "External ''sql: Scan error''" "''btcusdt''" "literal 100 1"
      "Daily \<lparr>hour = 0, minute = 0, second = 0\<rparr>" ex_client]
    New_seeds_state [of "ex_env\<lparr>env_ticks := (\<lambda>name. Inr [])\<rparr>"
      "Wrap ErrSymbolPriceFailed (method_name ''huobi'' ''Client'' ''SymbolPrice'')" "''btcusdt''" "literal 100 1"
      "Daily \<lparr>hour = 0, minute = 0, second = 0\<rparr>" ex_client "literal 12 10" "literal 8000 1"]
    s pr s2 s3 pr3
  show ?thesis by blast
qed

text \<open>
  C10.  The Order record that \<open>Invest\<close> hands to the database for a fill has as price
  the float64 quotient of the filled quote amount by the filled base amount, computed
  without a test of the divisor; when the filled base amount is zero that quotient is an
  infinity or NaN, never a finite number.  That record is the one appended to the orders
  when the insert succeeds; when the insert fails nothing is appended.
\<close>

theorem order_price_unguarded:
  "Order_Price (order_row order) =
     f64_div (OpenOrder_FieldCashAmount order) (OpenOrder_FieldAmount order) \<and>
   (IsZero (OpenOrder_FieldAmount order) \<longrightarrow>
      \<not> IsFinite (Order_Price (order_row (normalize order)))) \<and>
   (the_trade env p = Inr order \<and> env_insert_order env (order_row (normalize order)) = None \<longrightarrow>
      db_orders (snd (snd (Invest env (p, d)))) = db_orders d @ [order_row (normalize order)]) \<and>
   (the_trade env p = Inr order \<and> env_insert_order env (order_row (normalize order)) = Some e \<longrightarrow>
      db_orders (snd (snd (Invest env (p, d)))) = db_orders d)"
proof -
  have b: "Order_Price (order_row x) =
      f64_div (OpenOrder_FieldCashAmount x) (OpenOrder_FieldAmount x)" for x
    by (simp add: order_row_def)
  have c: "IsZero (OpenOrder_FieldAmount order) \<longrightarrow>
      \<not> IsFinite (Order_Price (order_row (normalize order)))"
    unfolding b by (simp add: f64_div_zero IsZero_normalize)
  have a: "db_orders (snd (snd (Invest env (p, d)))) = db_orders d @ [order_row (normalize order)]"
    if t: "the_trade env p = Inr order"
      and i: "env_insert_order env (order_row (normalize order)) = None"
    using Invest_persisted [OF t i, of d] by auto
  have f: "db_orders (snd (snd (Invest env (p, d)))) = db_orders d"
    if "the_trade env p = Inr order"
      and "env_insert_order env (order_row (normalize order)) = Some e"
    using that by (simp add: Invest_def addOrder_def AddOrder_def)
  from a b [of order] c f show ?thesis by blast
qed

theorem order_price_unguarded_witness:
  "the_trade ex_env_zero_base ex_plan =
     Inr (ex_fill ''buy-limit'' (Finite False 0 (- 1074)) (literal 100 1)) \<and>
   db_orders (snd (snd (Invest ex_env_zero_base (ex_plan, ex_db)))) =
     [order_row (normalize (ex_fill ''buy-limit'' (Finite False 0 (- 1074)) (literal 100 1)))] \<and>
   Order_Price (order_row (normalize
       (ex_fill ''buy-limit'' (Finite False 0 (- 1074)) (literal 100 1)))) = Infinity False \<and>
   \<not> IsFinite (Order_Price (order_row (normalize
       (ex_fill ''buy-limit'' (Finite False 0 (- 1074)) (literal 100 1))))) \<and>
   the_trade ex_env_unfilled ex_plan =
     Inr (ex_fill ''buy-limit'' (Finite False 0 (- 1074)) (Finite False 0 (- 1074))) \<and>
   Order_Price (order_row (normalize
       (ex_fill ''buy-limit'' (Finite False 0 (- 1074)) (Finite False 0 (- 1074))))) = NaN \<and>
   \<not> IsFinite (Order_Price (order_row (normalize
       (ex_fill ''buy-limit'' (Finite False 0 (- 1074)) (Finite False 0 (- 1074)))))) \<and>
   db_orders (snd (snd (Invest ex_env_unfilled (ex_plan, ex_db)))) = []"
proof -
  let ?z = "ex_fill ''buy-limit'' (Finite False 0 (- 1074)) (literal 100 1)"
  let ?u = "ex_fill ''buy-limit'' (Finite False 0 (- 1074)) (Finite False 0 (- 1074))"
  have t: "the_trade ex_env_zero_base ex_plan = Inr ?z"
    by code_simp
  have i: "env_insert_order ex_env_zero_base (order_row (normalize ?z)) = None"
    by (simp add: ex_env_zero_base_def ex_env_of_def)
  have z: "IsZero (OpenOrder_FieldAmount ?z)" "IsZero (OpenOrder_FieldAmount ?u)"
    by (simp_all add: ex_fill_def)
  have n: "Order_Price (order_row (normalize ?z)) = Infinity False"
    by code_simp
  have t': "the_trade ex_env_unfilled ex_plan = Inr ?u"
    by code_simp
  have i': "env_insert_order ex_env_unfilled (order_row (normalize ?u)) =
      Some (External ''NOT NULL constraint failed: orders.price'')"
    by (simp add: ex_env_unfilled_def ex_env_of_def)
  have n': "Order_Price (order_row (normalize ?u)) = NaN"
    by code_simp
  have d: "db_orders ex_db = []"
    by (simp add: ex_db_def)
  note w = order_price_unguarded [of ?z ex_env_zero_base ex_plan ex_db]
  note w' = order_price_unguarded [of ?u ex_env_unfilled ex_plan ex_db
      "External ''NOT NULL constraint failed: orders.price''"]
  have p1: "db_orders (snd (snd (Invest ex_env_zero_base (ex_plan, ex_db)))) =
      [order_row (normalize ?z)]"
    using w t i d by simp
  have p2: "\<not> IsFinite (Order_Price (order_row (normalize ?z)))"
    using w z(1) by blast
  have p3: "\<not> IsFinite (Order_Price (order_row (normalize ?u)))"
    using w' z(2) by blast
  have p4: "db_orders (snd (snd (Invest ex_env_unfilled (ex_plan, ex_db)))) = []"
    using w' t' i' d by simp
  show ?thesis by (intro conjI t p1 n p2 t' n' p3 p4)
qed

end
